theory Spec2Isabelle
  imports Main "HOL-Library.Sublist"
begin

unbundle bit_operations_syntax

section \<open>Data model\<close>

text \<open>
  Modelled from the spec: the struct declarations of package \<^verbatim>\<open>mediasoup\<close>
  (\<^verbatim>\<open>RtpCodecCapability\<close>, \<^verbatim>\<open>RtpCodecParameter\<close>, \<^verbatim>\<open>RtcpFeedback\<close>,
  \<^verbatim>\<open>RtpHeaderExtension\<close>, \<^verbatim>\<open>RtpCapabilities\<close>, \<^verbatim>\<open>RtpParameters\<close>, \<^verbatim>\<open>RtpEncoding\<close>,
  \<^verbatim>\<open>RtcpConfiguation\<close> and the mapping structs) are not part of \<^verbatim>\<open>ortc.go\<close>. The
  records below hold the fields that \<^verbatim>\<open>ortc.go\<close> reads or writes, with the meaning the
  data model of the specification gives them. The payload types are Go's \<^verbatim>\<open>int\<close>:
  the entries of \<^verbatim>\<open>DYNAMIC_PAYLOAD_TYPES\<close>, an array of \<^verbatim>\<open>int\<close>, are assigned to them
  as they are. Clock rate, channel count, packetization mode, ids and ssrcs are taken to
  be \<^verbatim>\<open>int\<close> as well; a channel count is a count, 0 when absent and never negative,
  and a statement that speaks of channel counts says so. Go's \<^verbatim>\<open>int\<close> is modelled as \<open>int\<close>: the code only compares
  and copies these numbers, and the one counter it increments is bounded by the length of
  the pool. A pointer field (\<^verbatim>\<open>*RtpCodecParameter\<close>, \<^verbatim>\<open>*bool\<close>, \<^verbatim>\<open>*RtpEncoding\<close>) is an
  \<open>option\<close>, \<open>None\<close> being \<^verbatim>\<open>nil\<close>. A slice is a list; a \<^verbatim>\<open>nil\<close> slice and an empty
  one are both \<open>[]\<close> (the code never tells them apart but to replace the former by
  the latter).
\<close>

record RtcpFeedback =
  Type :: string
  Parameter :: string

record RtpH264Parameter =
  PacketizationMode :: int
  ProfileLevelId :: string

record RtpCodecParameter =
  H264Parameter :: RtpH264Parameter  \<comment> \<open>the embedded \<^verbatim>\<open>h264.RtpH264Parameter\<close>\<close>
  Apt :: int

record RtpCodecCapability =
  Kind :: string
  MimeType :: string
  ClockRate :: int
  Channels :: int
  PayloadType :: int
  PreferredPayloadType :: int
  Parameters :: "RtpCodecParameter option"
  RtcpFeedback :: "RtcpFeedback list"

record RtpHeaderExtension =
  extKind :: string
  Uri :: string
  Id :: int
  PreferredId :: int

record RtpCapabilities =
  capCodecs :: "RtpCodecCapability list"
  capHeaderExtensions :: "RtpHeaderExtension list"
  FecMechanisms :: "string list"

datatype RtpEncoding =
  RtpEncoding (Ssrc: int) (Rid: string) (CodecPayloadType: int) (Rtx: "RtpEncoding option")

record RtcpConfiguation =
  Cname :: string
  ReducedSize :: bool
  Mux :: "bool option"

record RtpParameters =
  Codecs :: "RtpCodecCapability list"
  HeaderExtensions :: "RtpHeaderExtension list"
  Encodings :: "RtpEncoding list"
  Rtcp :: RtcpConfiguation

record RtpMappingCodec =
  mcPayloadType :: int
  MappedPayloadType :: int

record RtpMappingHeaderExt =
  mhId :: int
  MappedId :: int

record RtpMappingEncoding =
  meRid :: string
  meSsrc :: int
  MappedSsrc :: int

record RtpMappingParameters =
  mapCodecs :: "RtpMappingCodec list"
  mapHeaderExtensions :: "RtpMappingHeaderExt list"
  mapEncodings :: "RtpMappingEncoding list"

text \<open>Go's zero values.\<close>

definition zeroH264Parameter :: RtpH264Parameter where
  "zeroH264Parameter = \<lparr>PacketizationMode = 0, ProfileLevelId = []\<rparr>"

definition zeroCodecParameter :: RtpCodecParameter where
  "zeroCodecParameter = \<lparr>H264Parameter = zeroH264Parameter, Apt = 0\<rparr>"

definition zeroCodec :: RtpCodecCapability where
  "zeroCodec = \<lparr>Kind = [], MimeType = [], ClockRate = 0, Channels = 0, PayloadType = 0,
     PreferredPayloadType = 0, Parameters = None, RtcpFeedback = []\<rparr>"

definition zeroCapabilities :: RtpCapabilities where
  "zeroCapabilities = \<lparr>capCodecs = [], capHeaderExtensions = [], FecMechanisms = []\<rparr>"

definition zeroRtcp :: RtcpConfiguation where
  "zeroRtcp = \<lparr>Cname = [], ReducedSize = False, Mux = None\<rparr>"

definition zeroParameters :: RtpParameters where
  "zeroParameters = \<lparr>Codecs = [], HeaderExtensions = [], Encodings = [], Rtcp = zeroRtcp\<rparr>"

definition zeroMapping :: RtpMappingParameters where
  "zeroMapping = \<lparr>mapCodecs = [], mapHeaderExtensions = [], mapEncodings = []\<rparr>"

text \<open>
  Modelled from the spec: the constructors \<^verbatim>\<open>NewTypeError\<close> and
  \<^verbatim>\<open>NewUnsupportedError\<close> are not part of \<^verbatim>\<open>ortc.go\<close>; they make the validation
  error and the unsupported error of the specification's taxonomy. The third error is
  the plain \<^verbatim>\<open>errors.New\<close> of the payload type allocation. The message texts are left
  out.
\<close>

datatype error = TypeError | UnsupportedError | AllocationError

text \<open>
  A Go function either returns or panics (a \<^verbatim>\<open>nil\<close> dereference, an index out of
  range).
\<close>

datatype 'a outcome = Panics | Returns 'a

section \<open>Strings\<close>

text \<open>
  \<^verbatim>\<open>strings.ToLower\<close> on the ASCII letters; mime types are ASCII tokens, every other
  byte is left as it is.
\<close>

definition lowerChar :: "char \<Rightarrow> char" where
  "lowerChar c =
    (case map_of (zip ''ABCDEFGHIJKLMNOPQRSTUVWXYZ'' ''abcdefghijklmnopqrstuvwxyz'') c of
       None \<Rightarrow> c
     | Some l \<Rightarrow> l)"

definition ToLower :: "string \<Rightarrow> string" where
  "ToLower s = map lowerChar s"

definition HasPrefix :: "string \<Rightarrow> string \<Rightarrow> bool" where
  "HasPrefix s p = (length p \<le> length s \<and> take (length p) s = p)"

definition HasSuffix :: "string \<Rightarrow> string \<Rightarrow> bool" where
  "HasSuffix s x = (length x \<le> length s \<and> drop (length s - length x) s = x)"

text \<open>\<^verbatim>\<open>strings.Split(s, "/")[0]\<close>: the part of \<open>s\<close> before its first slash.\<close>

definition SplitFirst :: "string \<Rightarrow> string" where
  "SplitFirst s = takeWhile (\<lambda>c. c \<noteq> CHR ''/'') s"

section \<open>The codec matcher\<close>

type_synonym codecMatchMode = int

definition codecMatchNormal :: codecMatchMode where "codecMatchNormal = 0"
definition codecMatchStrict :: codecMatchMode where "codecMatchStrict = 0x01"
definition codecMatchModify :: codecMatchMode where "codecMatchModify = 0x10"
definition codecMatchStrictAndModify :: codecMatchMode where
  "codecMatchStrictAndModify = codecMatchStrict OR codecMatchModify"

text \<open>
  \<^verbatim>\<open>h264.GenerateProfileLevelIdForAnswer\<close> belongs to another package: it is a parameter
  of the model, \<open>None\<close> standing for its error.
\<close>

type_synonym h264Answer = "RtpH264Parameter \<Rightarrow> RtpH264Parameter \<Rightarrow> string option"

definition paramsOrZero :: "RtpCodecParameter option \<Rightarrow> RtpCodecParameter" where
  "paramsOrZero p = (case p of None \<Rightarrow> zeroCodecParameter | Some q \<Rightarrow> q)"

text \<open>
  \<^verbatim>\<open>matchedCodecs\<close> writes through its pointer \<^verbatim>\<open>aCodec\<close> under the modify flag; the
  model returns the candidate as the call leaves it next to the verdict.
\<close>

definition matchedCodecs ::
  "h264Answer \<Rightarrow> RtpCodecCapability \<Rightarrow> RtpCodecCapability \<Rightarrow> codecMatchMode
     \<Rightarrow> bool \<times> RtpCodecCapability" where
  "matchedCodecs answer aCodec bCodec mode =
    (let aMimeType = ToLower (MimeType aCodec); bMimeType = ToLower (MimeType bCodec) in
     if aMimeType \<noteq> bMimeType then (False, aCodec)
     else if ClockRate aCodec \<noteq> ClockRate bCodec then (False, aCodec)
     else if HasPrefix aMimeType ''audio/'' \<and> 0 < Channels aCodec \<and> 0 < Channels bCodec
               \<and> Channels aCodec \<noteq> Channels bCodec then (False, aCodec)
     else if aMimeType = ''video/h264'' then
       (let aParameters = paramsOrZero (Parameters aCodec);
            bParameters = paramsOrZero (Parameters bCodec) in
        if PacketizationMode (H264Parameter aParameters)
             \<noteq> PacketizationMode (H264Parameter bParameters) then (False, aCodec)
        else if 0 < mode AND codecMatchStrict then
          (case answer (H264Parameter aParameters) (H264Parameter bParameters) of
             None \<Rightarrow> (False, aCodec)
           | Some selectedProfileLevelId \<Rightarrow>
               if 0 < mode AND codecMatchModify then
                 (True, aCodec\<lparr>Parameters := Some (aParameters\<lparr>H264Parameter :=
                    (H264Parameter aParameters)\<lparr>ProfileLevelId := selectedProfileLevelId\<rparr>\<rparr>)\<rparr>)
               else (True, aCodec))
        else (True, aCodec))
     else (True, aCodec))"

fun selectMatchedCodecs ::
  "h264Answer \<Rightarrow> RtpCodecCapability \<Rightarrow> RtpCodecCapability list \<Rightarrow> codecMatchMode
     \<Rightarrow> (RtpCodecCapability \<times> bool) \<times> RtpCodecCapability" where
  "selectMatchedCodecs answer aCodec [] mode = ((zeroCodec, False), aCodec)"
| "selectMatchedCodecs answer aCodec (bCodec # bCodecs) mode =
    (case matchedCodecs answer aCodec bCodec mode of
       (True, aCodec') \<Rightarrow> ((bCodec, True), aCodec')
     | (False, aCodec') \<Rightarrow> selectMatchedCodecs answer aCodec' bCodecs mode)"

section \<open>Validation\<close>

text \<open>
  \<^verbatim>\<open>checkCodecCapability\<close> fills in the kind of the codec it is given a pointer to; the
  model returns the codec next to the error.
\<close>

definition checkCodecCapability :: "RtpCodecCapability \<Rightarrow> error option \<times> RtpCodecCapability" where
  "checkCodecCapability codec =
    (if length (MimeType codec) = 0 \<or> ClockRate codec = 0 then (Some TypeError, codec)
     else if length (Kind codec) = 0
       then (None, codec\<lparr>Kind := ToLower (SplitFirst (MimeType codec))\<rparr>)
       else (None, codec))"

definition checkCodecParameters :: "RtpCodecCapability \<Rightarrow> error option" where
  "checkCodecParameters codec =
    (if length (MimeType codec) = 0 \<or> ClockRate codec = 0 then Some TypeError else None)"

section \<open>Router capabilities\<close>

text \<open>The array literal, row by row as the source lays it out.\<close>

definition DYNAMIC_PAYLOAD_TYPES :: "int list" where
  "DYNAMIC_PAYLOAD_TYPES =
    [100, 101, 102, 103, 104, 105, 106, 107, 108, 109, 110, 111, 112, 113, 114, 115] @
    [116, 117, 118, 119, 120, 121, 122, 123, 124, 125, 126, 127, 96, 97, 98, 99, 77] @
    [78, 79, 80, 81, 82, 83, 84, 85, 86, 87, 88, 89, 90, 91, 92, 93, 94, 95, 35, 36] @
    [37, 38, 39, 40, 41, 42, 43, 44, 45, 46, 47, 48, 49, 50, 51, 52, 53, 54, 55, 56] @
    [57, 58, 59, 60, 61, 62, 63, 64, 65, 66, 67, 68, 69, 70, 71]"

text \<open>
  \<^verbatim>\<open>mergo.Merge(dst, src, mergo.WithOverride)\<close> on two parameter blocks: every field of
  \<open>src\<close> that is not its zero value replaces the field of \<open>dst\<close>.
\<close>

definition mergeParameters :: "RtpCodecParameter \<Rightarrow> RtpCodecParameter \<Rightarrow> RtpCodecParameter" where
  "mergeParameters dst src =
    \<lparr>H264Parameter =
       \<lparr>PacketizationMode =
          (if PacketizationMode (H264Parameter src) \<noteq> 0
           then PacketizationMode (H264Parameter src) else PacketizationMode (H264Parameter dst)),
        ProfileLevelId =
          (if ProfileLevelId (H264Parameter src) \<noteq> []
           then ProfileLevelId (H264Parameter src) else ProfileLevelId (H264Parameter dst))\<rparr>,
     Apt = (if Apt src \<noteq> 0 then Apt src else Apt dst)\<rparr>"

definition normalizeChannels :: "RtpCodecCapability \<Rightarrow> RtpCodecCapability" where
  "normalizeChannels codec =
    (if Kind codec \<noteq> ''audio'' then codec\<lparr>Channels := 0\<rparr>
     else if Channels codec = 0 then codec\<lparr>Channels := 1\<rparr>
     else codec)"

definition mergeMediaParameters ::
  "RtpCodecCapability \<Rightarrow> RtpCodecCapability \<Rightarrow> RtpCodecCapability" where
  "mergeMediaParameters mediaCodec codec =
    (let own = paramsOrZero (Parameters codec) in
     codec\<lparr>Parameters :=
       Some (case Parameters mediaCodec of None \<Rightarrow> own | Some p \<Rightarrow> mergeParameters own p)\<rparr>)"

definition rtxCodecOf :: "RtpCodecCapability \<Rightarrow> int \<Rightarrow> RtpCodecCapability" where
  "rtxCodecOf codec pt =
    \<lparr>Kind = Kind codec, MimeType = Kind codec @ ''/rtx'', ClockRate = ClockRate codec,
     Channels = 0, PayloadType = 0, PreferredPayloadType = pt,
     Parameters = Some (zeroCodecParameter\<lparr>Apt := PreferredPayloadType codec\<rparr>),
     RtcpFeedback = []\<rparr>"

text \<open>
  One round of the loop of \<^verbatim>\<open>GenerateRouterRtpCapabilities\<close>, for one configured codec
  and the cursor \<open>idx\<close> into the pool: the codecs it appends to \<^verbatim>\<open>caps.Codecs\<close>, the
  cursor it leaves and the error it returns with, if any. The supported codec is a copy
  of the table's entry; in Go its parameter block is still the table's, so two
  configured codecs that select the same entry share the merged block. The model gives
  each its own; the matching (which reads only the packetization mode, and a merge
  leaves that of a matched entry as it is), the payload types and the RTX siblings do
  not depend on it.
\<close>

definition routerCodecStep ::
  "h264Answer \<Rightarrow> RtpCodecCapability list \<Rightarrow> nat \<Rightarrow> RtpCodecCapability
     \<Rightarrow> RtpCodecCapability list \<times> nat \<times> error option" where
  "routerCodecStep answer supportedCodecs idx mediaCodec0 =
    (case checkCodecCapability mediaCodec0 of
       (Some e, mediaCodec) \<Rightarrow> ([], idx, Some e)
     | (None, mediaCodec) \<Rightarrow>
        (case selectMatchedCodecs answer mediaCodec supportedCodecs codecMatchNormal of
           ((matchedCodec, False), _) \<Rightarrow> ([], idx, Some UnsupportedError)
         | ((matchedCodec, True), _) \<Rightarrow>
            (let codec = mergeMediaParameters mediaCodec (normalizeChannels matchedCodec) in
             if PreferredPayloadType codec = 0 \<and> idx \<ge> length DYNAMIC_PAYLOAD_TYPES
               then ([], idx, Some AllocationError)
             else
               (let codec' = (if PreferredPayloadType codec = 0
                        then codec\<lparr>PreferredPayloadType := DYNAMIC_PAYLOAD_TYPES ! idx\<rparr>
                        else codec);
                    idx' = (if PreferredPayloadType codec = 0 then idx + 1 else idx) in
                if Kind codec' = ''video'' then
                  (if idx' \<ge> length DYNAMIC_PAYLOAD_TYPES
                     then ([codec'], idx', Some AllocationError)
                   else ([codec', rtxCodecOf codec' (DYNAMIC_PAYLOAD_TYPES ! idx')],
                         idx' + 1, None))
                else ([codec'], idx', None)))))"

fun routerCodecLoop ::
  "h264Answer \<Rightarrow> RtpCodecCapability list \<Rightarrow> RtpCodecCapability list \<Rightarrow> nat
     \<Rightarrow> RtpCapabilities \<Rightarrow> RtpCapabilities \<times> error option" where
  "routerCodecLoop answer supportedCodecs [] idx caps = (caps, None)"
| "routerCodecLoop answer supportedCodecs (mediaCodec # mediaCodecs) idx caps =
    (case routerCodecStep answer supportedCodecs idx mediaCodec of
       (out, idx', Some e) \<Rightarrow> (caps\<lparr>capCodecs := capCodecs caps @ out\<rparr>, Some e)
     | (out, idx', None) \<Rightarrow>
         routerCodecLoop answer supportedCodecs mediaCodecs idx'
           (caps\<lparr>capCodecs := capCodecs caps @ out\<rparr>))"

text \<open>
  \<^verbatim>\<open>GetSupportedRtpCapabilities()\<close> is not part of \<^verbatim>\<open>ortc.go\<close>: the table it returns
  is the parameter \<open>supportedRtpCapabilities\<close>. The function returns its named results
  \<^verbatim>\<open>(caps, err)\<close> as they stand, also with an error.
\<close>

definition GenerateRouterRtpCapabilities ::
  "h264Answer \<Rightarrow> RtpCapabilities \<Rightarrow> RtpCodecCapability list
     \<Rightarrow> RtpCapabilities \<times> error option" where
  "GenerateRouterRtpCapabilities answer supportedRtpCapabilities mediaCodecs =
    (if length mediaCodecs = 0 then (zeroCapabilities, Some TypeError)
     else routerCodecLoop answer (capCodecs supportedRtpCapabilities) mediaCodecs 0
            (zeroCapabilities\<lparr>
               capHeaderExtensions := capHeaderExtensions supportedRtpCapabilities,
               FecMechanisms := FecMechanisms supportedRtpCapabilities\<rparr>))"

section \<open>Producer mapping\<close>

definition isRtxMime :: "RtpCodecCapability \<Rightarrow> bool" where
  "isRtxMime codec = HasSuffix (ToLower (MimeType codec)) ''/rtx''"

definition matchHeaderExtensions :: "RtpHeaderExtension \<Rightarrow> RtpHeaderExtension \<Rightarrow> bool" where
  "matchHeaderExtensions aExt bExt =
    (if length (extKind aExt) > 0 \<and> length (extKind bExt) > 0 \<and> extKind aExt \<noteq> extKind bExt
     then False
     else Uri aExt = Uri bExt)"

text \<open>
  \<^verbatim>\<open>codecToCapCodec\<close> is a Go map keyed by the address of a codec of \<^verbatim>\<open>params.Codecs\<close>;
  the model keys it by the index of that codec. The first loop of
  \<^verbatim>\<open>GetProducerRtpParametersMapping\<close> runs over the indexed codecs; the flag tells
  whether the function returned from inside the loop. Each round assigns \<^verbatim>\<open>err\<close> the
  result of \<^verbatim>\<open>checkCodecParameters\<close>, and an unmatched codec sets \<^verbatim>\<open>err\<close> and goes on
  to store the empty result of the search. The profile-level-id that \<^verbatim>\<open>matchedCodecs\<close>
  writes under the modify flag goes to the loop's copy of the codec and, through its
  pointer, to the caller's parameter block; this function does not read it again.
\<close>

fun mappingMediaCodecs ::
  "h264Answer \<Rightarrow> RtpCodecCapability list \<Rightarrow> (nat \<times> RtpCodecCapability) list
     \<Rightarrow> (nat \<rightharpoonup> RtpCodecCapability) \<Rightarrow> error option
     \<Rightarrow> bool \<times> (nat \<rightharpoonup> RtpCodecCapability) \<times> error option" where
  "mappingMediaCodecs answer caps [] m err = (False, m, err)"
| "mappingMediaCodecs answer caps ((i, codec) # rest) m err =
    (case checkCodecParameters codec of
       Some e \<Rightarrow> (True, m, Some e)
     | None \<Rightarrow>
        if isRtxMime codec then mappingMediaCodecs answer caps rest m None
        else
          (case selectMatchedCodecs answer codec caps codecMatchStrictAndModify of
             ((matchedCapCodec, matched), _) \<Rightarrow>
               mappingMediaCodecs answer caps rest (m(i \<mapsto> matchedCapCodec))
                 (if matched then None else Some UnsupportedError)))"

fun findPayloadType :: "RtpCodecCapability list \<Rightarrow> int \<Rightarrow> nat \<Rightarrow> nat option" where
  "findPayloadType [] pt j = None"
| "findPayloadType (mediaCodec # codecs) pt j =
    (if PayloadType mediaCodec = pt then Some j else findPayloadType codecs pt (Suc j))"

text \<open>
  The search for the RTX capability codec whose \<^verbatim>\<open>apt\<close> is a given payload type, as in
  \<^verbatim>\<open>GetProducerRtpParametersMapping\<close> and \<^verbatim>\<open>GetConsumableRtpParameters\<close>: it reads
  \<^verbatim>\<open>capCodec.Parameters.Apt\<close> of every RTX codec it meets, a \<^verbatim>\<open>nil\<close> dereference when
  that codec has no parameters.
\<close>

fun findCapRtxCodec :: "RtpCodecCapability list \<Rightarrow> int \<Rightarrow> RtpCodecCapability option outcome" where
  "findCapRtxCodec [] pt = Returns None"
| "findCapRtxCodec (capCodec # rest) pt =
    (if \<not> isRtxMime capCodec then findCapRtxCodec rest pt
     else
       (case Parameters capCodec of
          None \<Rightarrow> Panics
        | Some p \<Rightarrow> if Apt p = pt then Returns (Some capCodec)
                    else findCapRtxCodec rest pt))"

fun mappingRtxCodecs ::
  "RtpCodecCapability list \<Rightarrow> RtpCodecCapability list \<Rightarrow> (nat \<times> RtpCodecCapability) list
     \<Rightarrow> (nat \<rightharpoonup> RtpCodecCapability) \<Rightarrow> error option
     \<Rightarrow> (bool \<times> (nat \<rightharpoonup> RtpCodecCapability) \<times> error option) outcome" where
  "mappingRtxCodecs caps codecs [] m err = Returns (False, m, err)"
| "mappingRtxCodecs caps codecs ((i, codec) # rest) m err =
    (if \<not> isRtxMime codec then mappingRtxCodecs caps codecs rest m err
     else
       (case Parameters codec of
          None \<Rightarrow> Returns (True, m, Some TypeError)
        | Some p \<Rightarrow>
           (case findPayloadType codecs (Apt p) 0 of
              None \<Rightarrow> Returns (True, m, Some TypeError)
            | Some j \<Rightarrow>
               (let capMediaCodec = (case m j of None \<Rightarrow> zeroCodec | Some c \<Rightarrow> c) in
                case findCapRtxCodec caps (PreferredPayloadType capMediaCodec) of
                  Panics \<Rightarrow> Panics
                | Returns None \<Rightarrow> Returns (True, m, Some UnsupportedError)
                | Returns (Some associatedCapRtxCodec) \<Rightarrow>
                    mappingRtxCodecs caps codecs rest (m(i \<mapsto> associatedCapRtxCodec)) err))))"

definition mapEntries ::
  "(nat \<rightharpoonup> RtpCodecCapability) \<Rightarrow> nat \<Rightarrow> (nat \<times> RtpCodecCapability) list" where
  "mapEntries m n = List.map_filter (\<lambda>i. map_option (Pair i) (m i)) [0..<n]"

fun mappingHeaderExtensions ::
  "RtpHeaderExtension list \<Rightarrow> RtpHeaderExtension list \<Rightarrow> RtpMappingHeaderExt list
     \<Rightarrow> RtpMappingHeaderExt list \<times> error option" where
  "mappingHeaderExtensions capExts [] acc = (acc, None)"
| "mappingHeaderExtensions capExts (ext # exts) acc =
    (case find (matchHeaderExtensions ext) capExts of
       None \<Rightarrow> (acc, Some UnsupportedError)
     | Some matchedCapExt \<Rightarrow>
         mappingHeaderExtensions capExts exts
           (acc @ [\<lparr>mhId = Id ext, MappedId = PreferredId matchedCapExt\<rparr>]))"

text \<open>
  \<^verbatim>\<open>generateRandomNumber()\<close> is not part of \<^verbatim>\<open>ortc.go\<close>: \<open>rnd k\<close> is what its call
  number \<open>k\<close> returns.
\<close>

fun mappingEncodings :: "(nat \<Rightarrow> int) \<Rightarrow> RtpEncoding list \<Rightarrow> nat \<Rightarrow> RtpMappingEncoding list" where
  "mappingEncodings rnd [] k = []"
| "mappingEncodings rnd (encoding # encodings) k =
    \<lparr>meRid = Rid encoding, meSsrc = Ssrc encoding, MappedSsrc = rnd k\<rparr>
      # mappingEncodings rnd encodings (Suc k)"

text \<open>
  Go leaves the order in which \<^verbatim>\<open>range\<close> visits a map open: \<open>ord\<close> is the order of that
  run, a permutation of the entries. The results are the named \<^verbatim>\<open>(rtpMapping, err)\<close> as
  they stand at the \<^verbatim>\<open>return\<close> reached.
\<close>

definition GetProducerRtpParametersMapping ::
  "h264Answer \<Rightarrow> (nat \<Rightarrow> int)
     \<Rightarrow> ((nat \<times> RtpCodecCapability) list \<Rightarrow> (nat \<times> RtpCodecCapability) list)
     \<Rightarrow> RtpParameters \<Rightarrow> RtpCapabilities
     \<Rightarrow> (RtpMappingParameters \<times> error option) outcome" where
  "GetProducerRtpParametersMapping answer rnd ord params caps =
    (let indexed = zip [0..<length (Codecs params)] (Codecs params) in
     case mappingMediaCodecs answer (capCodecs caps) indexed Map.empty None of
       (True, m, err) \<Rightarrow> Returns (zeroMapping, err)
     | (False, m, err) \<Rightarrow>
        (case mappingRtxCodecs (capCodecs caps) (Codecs params) indexed m err of
           Panics \<Rightarrow> Panics
         | Returns (True, m', err') \<Rightarrow> Returns (zeroMapping, err')
         | Returns (False, m', err') \<Rightarrow>
            (let rtpMapping = zeroMapping\<lparr>mapCodecs :=
                   map (\<lambda>(i, capCodec).
                          \<lparr>mcPayloadType = PayloadType (Codecs params ! i),
                           MappedPayloadType = PreferredPayloadType capCodec\<rparr>)
                       (ord (mapEntries m' (length (Codecs params))))\<rparr> in
             case mappingHeaderExtensions (capHeaderExtensions caps) (HeaderExtensions params) [] of
               (exts, Some e) \<Rightarrow> Returns (rtpMapping\<lparr>mapHeaderExtensions := exts\<rparr>, Some e)
             | (exts, None) \<Rightarrow>
                 Returns (rtpMapping\<lparr>mapHeaderExtensions := exts,
                            mapEncodings := mappingEncodings rnd (Encodings params) 0\<rparr>, err'))))"

section \<open>Consumable parameters\<close>

fun mappedPayloadTypeOf :: "RtpMappingCodec list \<Rightarrow> int \<Rightarrow> int" where
  "mappedPayloadTypeOf [] pt = 0"
| "mappedPayloadTypeOf (entry # entries) pt =
    (if mcPayloadType entry = pt then MappedPayloadType entry else mappedPayloadTypeOf entries pt)"

fun capCodecOfPayloadType :: "RtpCodecCapability list \<Rightarrow> int \<Rightarrow> RtpCodecCapability" where
  "capCodecOfPayloadType [] pt = zeroCodec"
| "capCodecOfPayloadType (capCodec # rest) pt =
    (if PreferredPayloadType capCodec = pt then capCodec else capCodecOfPayloadType rest pt)"

definition consumableCodecOf :: "RtpCodecCapability \<Rightarrow> RtpCodecCapability \<Rightarrow> RtpCodecCapability" where
  "consumableCodecOf matchedCapCodec codec =
    \<lparr>Kind = [], MimeType = MimeType matchedCapCodec, ClockRate = ClockRate matchedCapCodec,
     Channels = Channels matchedCapCodec, PayloadType = PreferredPayloadType matchedCapCodec,
     PreferredPayloadType = 0, Parameters = Parameters codec,
     RtcpFeedback = RtcpFeedback matchedCapCodec\<rparr>"

definition consumableRtxCodecOf :: "RtpCodecCapability \<Rightarrow> RtpCodecCapability" where
  "consumableRtxCodecOf consumableCapRtxCodec =
    \<lparr>Kind = [], MimeType = MimeType consumableCapRtxCodec,
     ClockRate = ClockRate consumableCapRtxCodec, Channels = Channels consumableCapRtxCodec,
     PayloadType = PreferredPayloadType consumableCapRtxCodec, PreferredPayloadType = 0,
     Parameters = Parameters consumableCapRtxCodec,
     RtcpFeedback = RtcpFeedback consumableCapRtxCodec\<rparr>"

text \<open>
  What one round of the codec loop of \<^verbatim>\<open>GetConsumableRtpParameters\<close> appends for a
  producer codec that is not an RTX codec.
\<close>

definition consumableCodecStep ::
  "RtpCodecCapability list \<Rightarrow> RtpMappingCodec list \<Rightarrow> RtpCodecCapability
     \<Rightarrow> RtpCodecCapability list outcome" where
  "consumableCodecStep caps entries codec =
    (let consumableCodecPt = mappedPayloadTypeOf entries (PayloadType codec);
         matchedCapCodec = capCodecOfPayloadType caps consumableCodecPt;
         consumableCodec = consumableCodecOf matchedCapCodec codec in
     case findCapRtxCodec caps (PayloadType consumableCodec) of
       Panics \<Rightarrow> Panics
     | Returns None \<Rightarrow> Returns [consumableCodec]
     | Returns (Some consumableCapRtxCodec) \<Rightarrow>
         Returns [consumableCodec, consumableRtxCodecOf consumableCapRtxCodec])"

fun consumableCodecs ::
  "RtpCodecCapability list \<Rightarrow> RtpMappingCodec list \<Rightarrow> RtpCodecCapability list
     \<Rightarrow> RtpCodecCapability list \<Rightarrow> (RtpCodecCapability list \<times> error option) outcome" where
  "consumableCodecs caps entries [] acc = Returns (acc, None)"
| "consumableCodecs caps entries (codec # codecs) acc =
    (case checkCodecParameters codec of
       Some e \<Rightarrow> Returns (acc, Some e)
     | None \<Rightarrow>
        if isRtxMime codec then consumableCodecs caps entries codecs acc
        else
          (case consumableCodecStep caps entries codec of
             Panics \<Rightarrow> Panics
           | Returns out \<Rightarrow> consumableCodecs caps entries codecs (acc @ out)))"

fun consumableHeaderExtensions ::
  "string \<Rightarrow> RtpHeaderExtension list \<Rightarrow> RtpHeaderExtension list" where
  "consumableHeaderExtensions kind [] = []"
| "consumableHeaderExtensions kind (capExt # capExts) =
    (if extKind capExt \<noteq> kind
        \<or> Uri capExt = ''urn:ietf:params:rtp-hdrext:sdes:mid''
        \<or> Uri capExt = ''urn:ietf:params:rtp-hdrext:sdes:rtp-stream-id''
        \<or> Uri capExt = ''urn:ietf:params:rtp-hdrext:sdes:repaired-rtp-stream-id''
     then consumableHeaderExtensions kind capExts
     else \<lparr>extKind = [], Uri = Uri capExt, Id = PreferredId capExt, PreferredId = 0\<rparr>
            # consumableHeaderExtensions kind capExts)"

text \<open>
  The encoding loop reads \<^verbatim>\<open>rtpMapping.Encodings[i]\<close>: an index out of range panics.
\<close>

fun consumableEncodings ::
  "RtpEncoding list \<Rightarrow> RtpMappingEncoding list \<Rightarrow> nat \<Rightarrow> RtpEncoding list
     \<Rightarrow> RtpEncoding list outcome" where
  "consumableEncodings [] mapped i acc = Returns acc"
| "consumableEncodings (encoding # encodings) mapped i acc =
    (if i < length mapped
     then consumableEncodings encodings mapped (Suc i)
            (acc @ [RtpEncoding (MappedSsrc (mapped ! i)) [] 0 None])
     else Panics)"

definition GetConsumableRtpParameters ::
  "string \<Rightarrow> RtpParameters \<Rightarrow> RtpCapabilities \<Rightarrow> RtpMappingParameters
     \<Rightarrow> (RtpParameters \<times> error option) outcome" where
  "GetConsumableRtpParameters kind params caps rtpMapping =
    (case consumableCodecs (capCodecs caps) (mapCodecs rtpMapping) (Codecs params) [] of
       Panics \<Rightarrow> Panics
     | Returns (codecs, Some e) \<Rightarrow> Returns (zeroParameters\<lparr>Codecs := codecs\<rparr>, Some e)
     | Returns (codecs, None) \<Rightarrow>
        (case consumableEncodings (Encodings params) (mapEncodings rtpMapping) 0 [] of
           Panics \<Rightarrow> Panics
         | Returns encodings \<Rightarrow>
             Returns
               (\<lparr>Codecs = codecs,
                 HeaderExtensions = consumableHeaderExtensions kind (capHeaderExtensions caps),
                 Encodings = encodings,
                 Rtcp = \<lparr>Cname = Cname (Rtcp params), ReducedSize = True, Mux = Some True\<rparr>\<rparr>,
                None)))"

section \<open>Feasibility and consumer parameters\<close>

fun checkedCapCodecs ::
  "RtpCodecCapability list \<Rightarrow> RtpCodecCapability list \<Rightarrow> RtpCodecCapability list option" where
  "checkedCapCodecs [] acc = Some acc"
| "checkedCapCodecs (capCodec # rest) acc =
    (case checkCodecCapability capCodec of
       (Some e, _) \<Rightarrow> None
     | (None, capCodec') \<Rightarrow> checkedCapCodecs rest (acc @ [capCodec']))"

fun matchingCapCodecs ::
  "h264Answer \<Rightarrow> RtpCodecCapability list \<Rightarrow> RtpCodecCapability list
     \<Rightarrow> RtpCodecCapability list \<Rightarrow> RtpCodecCapability list" where
  "matchingCapCodecs answer caps [] acc = acc"
| "matchingCapCodecs answer caps (codec # codecs) acc =
    (case selectMatchedCodecs answer codec caps codecMatchStrict of
       ((matchedCodec, False), _) \<Rightarrow> matchingCapCodecs answer caps codecs acc
     | ((matchedCodec, True), _) \<Rightarrow> matchingCapCodecs answer caps codecs (acc @ [matchedCodec]))"

definition CanConsume :: "h264Answer \<Rightarrow> RtpParameters \<Rightarrow> RtpCapabilities \<Rightarrow> bool" where
  "CanConsume answer consumableParams caps =
    (case checkedCapCodecs (capCodecs caps) [] of
       None \<Rightarrow> False
     | Some checked \<Rightarrow>
        (let matchingCodecs = matchingCapCodecs answer checked (Codecs consumableParams) [] in
         if length matchingCodecs = 0 then False
         else if HasSuffix (MimeType (matchingCodecs ! 0)) ''/rtx'' then False
         else True))"

fun validateCapCodecs :: "RtpCodecCapability list \<Rightarrow> error option" where
  "validateCapCodecs [] = None"
| "validateCapCodecs (capCodec # rest) =
    (case checkCodecCapability capCodec of
       (Some e, _) \<Rightarrow> Some e
     | (None, _) \<Rightarrow> validateCapCodecs rest)"

text \<open>
  The codec loop of \<^verbatim>\<open>GetConsumerRtpParameters\<close>, over the copy \<^verbatim>\<open>copier.Copy\<close> made
  of the consumable codecs; the flag is \<^verbatim>\<open>rtxSupported\<close>.
\<close>

fun consumerCodecs ::
  "h264Answer \<Rightarrow> RtpCodecCapability list \<Rightarrow> RtpCodecCapability list
     \<Rightarrow> RtpCodecCapability list \<Rightarrow> bool \<Rightarrow> RtpCodecCapability list \<times> bool" where
  "consumerCodecs answer caps [] acc rtxSupported = (acc, rtxSupported)"
| "consumerCodecs answer caps (codec0 # codecs) acc rtxSupported =
    (case selectMatchedCodecs answer codec0 caps codecMatchStrict of
       ((matchedCapCodec, False), _) \<Rightarrow> consumerCodecs answer caps codecs acc rtxSupported
     | ((matchedCapCodec, True), codec) \<Rightarrow>
        (let codec' = codec\<lparr>RtcpFeedback := RtcpFeedback matchedCapCodec\<rparr> in
         consumerCodecs answer caps codecs (acc @ [codec'])
           (if \<not> rtxSupported \<and> HasSuffix (MimeType codec') ''/rtx'' then True
            else rtxSupported)))"

fun consumerHeaderExtensions ::
  "RtpHeaderExtension list \<Rightarrow> RtpHeaderExtension list \<Rightarrow> RtpHeaderExtension list" where
  "consumerHeaderExtensions capExts [] = []"
| "consumerHeaderExtensions capExts (ext # exts) =
    (case find (\<lambda>capExt. PreferredId capExt = Id ext) capExts of
       None \<Rightarrow> consumerHeaderExtensions capExts exts
     | Some _ \<Rightarrow> ext # consumerHeaderExtensions capExts exts)"

definition GetConsumerRtpParameters ::
  "h264Answer \<Rightarrow> (nat \<Rightarrow> int) \<Rightarrow> RtpParameters \<Rightarrow> RtpCapabilities
     \<Rightarrow> RtpParameters \<times> error option" where
  "GetConsumerRtpParameters answer rnd consumableParams caps =
    (case validateCapCodecs (capCodecs caps) of
       Some e \<Rightarrow> (zeroParameters, Some e)
     | None \<Rightarrow>
        (case consumerCodecs answer (capCodecs caps) (Codecs consumableParams) [] False of
           (codecs, rtxSupported) \<Rightarrow>
             if length codecs = 0 then (zeroParameters\<lparr>Codecs := codecs\<rparr>, Some UnsupportedError)
             else if HasSuffix (MimeType (codecs ! 0)) ''/rtx''
               then (zeroParameters\<lparr>Codecs := codecs\<rparr>, Some UnsupportedError)
             else
               (\<lparr>Codecs = codecs,
                 HeaderExtensions =
                   consumerHeaderExtensions (capHeaderExtensions caps)
                     (HeaderExtensions consumableParams),
                 Encodings =
                   [RtpEncoding (rnd 0) [] 0
                      (if rtxSupported then Some (RtpEncoding (rnd 1) [] 0 None) else None)],
                 Rtcp = Rtcp consumableParams\<rparr>, None)))"

section \<open>Pipe consumer parameters\<close>

fun pipeFeedback :: "RtcpFeedback list \<Rightarrow> RtcpFeedback list \<Rightarrow> RtcpFeedback list" where
  "pipeFeedback [] rtcpFeedback = rtcpFeedback"
| "pipeFeedback (fb # fbs) rtcpFeedback =
    (if (Type fb = ''nack'' \<and> Parameter fb = ''pli'') \<or> (Type fb = ''ccm'' \<and> Parameter fb = ''fir'')
     then pipeFeedback fbs (rtcpFeedback @ [fb])
     else pipeFeedback fbs rtcpFeedback)"

fun pipeCodecs :: "RtpCodecCapability list \<Rightarrow> RtpCodecCapability list \<Rightarrow> RtpCodecCapability list" where
  "pipeCodecs [] acc = acc"
| "pipeCodecs (codec # codecs) acc =
    (if isRtxMime codec then pipeCodecs codecs acc
     else pipeCodecs codecs (acc @ [codec\<lparr>RtcpFeedback := pipeFeedback (RtcpFeedback codec) []\<rparr>]))"

fun pipeHeaderExtensions ::
  "RtpHeaderExtension list \<Rightarrow> RtpHeaderExtension list \<Rightarrow> RtpHeaderExtension list" where
  "pipeHeaderExtensions [] acc = acc"
| "pipeHeaderExtensions (ext # exts) acc =
    (if Uri ext \<noteq> ''http://www.webrtc.org/experiments/rtp-hdrext/abs-send-time''
     then pipeHeaderExtensions exts (acc @ [ext])
     else pipeHeaderExtensions exts acc)"

fun pipeEncodings :: "RtpEncoding list \<Rightarrow> RtpEncoding list \<Rightarrow> RtpEncoding list" where
  "pipeEncodings [] acc = acc"
| "pipeEncodings (encoding # encodings) acc =
    pipeEncodings encodings
      (acc @ [RtpEncoding (Ssrc encoding) (Rid encoding) (CodecPayloadType encoding) None])"

definition GetPipeConsumerRtpParameters :: "RtpParameters \<Rightarrow> RtpParameters" where
  "GetPipeConsumerRtpParameters consumableParams =
    \<lparr>Codecs = pipeCodecs (Codecs consumableParams) [],
     HeaderExtensions = pipeHeaderExtensions (HeaderExtensions consumableParams) [],
     Encodings = pipeEncodings (Encodings consumableParams) [],
     Rtcp = Rtcp consumableParams\<rparr>"

section \<open>Notions used in the statements\<close>

text \<open>
  The supported codec the loop of \<^verbatim>\<open>GenerateRouterRtpCapabilities\<close> selects for a
  configured codec, \<open>None\<close> when the codec is invalid or unsupported (the first two
  steps of a round).
\<close>

definition configuredMatch ::
  "h264Answer \<Rightarrow> RtpCodecCapability list \<Rightarrow> RtpCodecCapability \<Rightarrow> RtpCodecCapability option" where
  "configuredMatch answer supportedCodecs mediaCodec =
    (case checkCodecCapability mediaCodec of
       (Some e, _) \<Rightarrow> None
     | (None, mediaCodec') \<Rightarrow>
        (case selectMatchedCodecs answer mediaCodec' supportedCodecs codecMatchNormal of
           ((matchedCodec, True), _) \<Rightarrow> Some matchedCodec
         | ((matchedCodec, False), _) \<Rightarrow> None))"

text \<open>
  What each configured codec asks of the pool: the preferred payload type of its
  supported codec (0 asks for a dynamic one) and whether it is a video codec (which asks
  for an RTX sibling).
\<close>

definition poolRequests ::
  "h264Answer \<Rightarrow> RtpCodecCapability list \<Rightarrow> RtpCodecCapability list \<Rightarrow> (int \<times> bool) list" where
  "poolRequests answer supportedCodecs mediaCodecs =
    List.map_filter
      (\<lambda>mediaCodec. map_option (\<lambda>c. (PreferredPayloadType c, Kind c = ''video''))
         (configuredMatch answer supportedCodecs mediaCodec))
      mediaCodecs"

text \<open>
  The payload type assignment in the words of the specification, to compare the code
  with: reuse a preferred payload type that is not 0, otherwise pop the next unused
  entry of the pool; a video codec pops one more entry for its RTX sibling; an empty pool
  is fatal.
\<close>

fun spec_assignFromPool :: "int list \<Rightarrow> (int \<times> bool) list \<Rightarrow> int list option" where
  "spec_assignFromPool pool [] = Some []"
| "spec_assignFromPool pool ((preferred, video) # reqs) =
    (case (if preferred \<noteq> 0 then Some (preferred, pool)
           else (case pool of [] \<Rightarrow> None | p # pool' \<Rightarrow> Some (p, pool'))) of
       None \<Rightarrow> None
     | Some (pt, pool1) \<Rightarrow>
        if video then
          (case pool1 of
             [] \<Rightarrow> None
           | r # pool2 \<Rightarrow> map_option (\<lambda>pts. pt # r # pts) (spec_assignFromPool pool2 reqs))
        else map_option (\<lambda>pts. pt # pts) (spec_assignFromPool pool1 reqs))"

text \<open>The number of pool entries a list of requests needs.\<close>

fun poolDemand :: "(int \<times> bool) list \<Rightarrow> nat" where
  "poolDemand [] = 0"
| "poolDemand ((preferred, video) # reqs) =
    (if preferred = 0 then 1 else 0) + (if video then 1 else 0) + poolDemand reqs"

text \<open>
  Every video codec of a list other than a \<^verbatim>\<open>video/rtx\<close> one is followed by its RTX
  sibling.
\<close>

definition rtxFollows :: "RtpCodecCapability list \<Rightarrow> bool" where
  "rtxFollows cs =
    (\<forall>i<length cs. Kind (cs ! i) = ''video'' \<and> MimeType (cs ! i) \<noteq> ''video/rtx'' \<longrightarrow>
       Suc i < length cs \<and>
       MimeType (cs ! Suc i) = Kind (cs ! i) @ ''/rtx'' \<and>
       ClockRate (cs ! Suc i) = ClockRate (cs ! i) \<and>
       RtcpFeedback (cs ! Suc i) = [] \<and>
       map_option Apt (Parameters (cs ! Suc i)) = Some (PreferredPayloadType (cs ! i)))"

text \<open>The verdict of \<^verbatim>\<open>matchedCodecs\<close> in strict mode, without the modify flag.\<close>

definition strictMatch :: "h264Answer \<Rightarrow> RtpCodecCapability \<Rightarrow> RtpCodecCapability \<Rightarrow> bool" where
  "strictMatch answer codec capCodec = fst (matchedCodecs answer codec capCodec codecMatchStrict)"

text \<open>The two feedback entries a pipe consumer keeps.\<close>

definition pipeKeeps :: "RtcpFeedback \<Rightarrow> bool" where
  "pipeKeeps fb = ((Type fb, Parameter fb) \<in> {(''nack'', ''pli''), (''ccm'', ''fir'')})"

section \<open>Example inputs\<close>

definition opusCodec :: RtpCodecCapability where
  "opusCodec = zeroCodec\<lparr>Kind := ''audio'', MimeType := ''audio/opus'', ClockRate := 48000,
     Channels := 2\<rparr>"

definition vp8Codec :: RtpCodecCapability where
  "vp8Codec = zeroCodec\<lparr>Kind := ''video'', MimeType := ''video/VP8'', ClockRate := 90000\<rparr>"

definition supportedExample :: RtpCapabilities where
  "supportedExample = zeroCapabilities\<lparr>capCodecs := [opusCodec, vp8Codec]\<rparr>"

definition noAnswer :: h264Answer where
  "noAnswer a b = None"

definition noRandom :: "nat \<Rightarrow> int" where
  "noRandom k = 0"

definition producerOpus :: RtpCodecCapability where
  "producerOpus = zeroCodec\<lparr>MimeType := ''audio/opus'', ClockRate := 48000, Channels := 2,
     PayloadType := 111\<rparr>"

definition producerVP8 :: RtpCodecCapability where
  "producerVP8 = zeroCodec\<lparr>MimeType := ''video/VP8'', ClockRate := 90000, PayloadType := 96\<rparr>"

definition producerVP9 :: RtpCodecCapability where
  "producerVP9 = zeroCodec\<lparr>MimeType := ''video/VP9'', ClockRate := 90000, PayloadType := 98\<rparr>"

definition producerRtx :: RtpCodecCapability where
  "producerRtx = zeroCodec\<lparr>MimeType := ''video/rtx'', ClockRate := 90000, PayloadType := 97,
     Parameters := Some (zeroCodecParameter\<lparr>Apt := 96\<rparr>)\<rparr>"

text \<open>The capabilities of a router configured with VP8 alone: VP8 at 100, its RTX at 101.\<close>

definition routerVP8 :: RtpCapabilities where
  "routerVP8 = fst (GenerateRouterRtpCapabilities noAnswer supportedExample [vp8Codec])"

definition producerExample :: RtpParameters where
  "producerExample = zeroParameters\<lparr>Codecs := [producerVP8, producerRtx],
     Rtcp := \<lparr>Cname = ''cname'', ReducedSize = False, Mux = Some False\<rparr>\<rparr>"

definition mappingExample :: RtpMappingParameters where
  "mappingExample = zeroMapping\<lparr>mapCodecs :=
     [\<lparr>mcPayloadType = 96, MappedPayloadType = 100\<rparr>,
      \<lparr>mcPayloadType = 97, MappedPayloadType = 101\<rparr>]\<rparr>"

text \<open>A consumable RTX codec and a device capability that spells the same mime type in capitals.\<close>

definition rtxLower :: RtpCodecCapability where
  "rtxLower = zeroCodec\<lparr>MimeType := ''video/rtx'', ClockRate := 90000, PayloadType := 101,
     Parameters := Some (zeroCodecParameter\<lparr>Apt := 100\<rparr>)\<rparr>"

definition rtxUpper :: RtpCodecCapability where
  "rtxUpper = zeroCodec\<lparr>Kind := ''video'', MimeType := ''video/RTX'', ClockRate := 90000\<rparr>"

definition consumerVP8 :: RtpCodecCapability where
  "consumerVP8 = zeroCodec\<lparr>Kind := ''video'', MimeType := ''video/vp8'', ClockRate := 90000,
     RtcpFeedback := [\<lparr>Type = ''nack'', Parameter = ''pli''\<rparr>]\<rparr>"

definition consumableExample :: RtpParameters where
  "consumableExample = zeroParameters\<lparr>Codecs :=
     [zeroCodec\<lparr>MimeType := ''video/VP8'', ClockRate := 90000, PayloadType := 100,
         RtcpFeedback := [\<lparr>Type = ''goog-remb'', Parameter = []\<rparr>]\<rparr>,
      zeroCodec\<lparr>MimeType := ''video/rtx'', ClockRate := 90000, PayloadType := 101,
         Parameters := Some (zeroCodecParameter\<lparr>Apt := 100\<rparr>)\<rparr>]\<rparr>"

text \<open>Scenario D of the specification.\<close>

definition feedbackExample :: "RtcpFeedback list" where
  "feedbackExample =
    [\<lparr>Type = ''nack'', Parameter = []\<rparr>, \<lparr>Type = ''nack'', Parameter = ''pli''\<rparr>,
     \<lparr>Type = ''ccm'', Parameter = ''fir''\<rparr>, \<lparr>Type = ''goog-remb'', Parameter = []\<rparr>]"

section \<open>Router capabilities: the payload type pool and the RTX siblings\<close>

lemma spec_assignFromPool_None_iff:
  "spec_assignFromPool pool reqs = None \<longleftrightarrow> length pool < poolDemand reqs"
proof (induction reqs arbitrary: pool)
  case Nil
  show ?case by simp
next
  case (Cons rq reqs)
  obtain preferred video where rq: "rq = (preferred, video)" by (cases rq)
  show ?case
  proof (cases pool)
    case Nil
    then show ?thesis using Cons.IH [of "[]"] rq by (auto split: list.splits)
  next
    case (Cons p pool')
    note outer = this
    show ?thesis
    proof (cases pool')
      case Nil
      then show ?thesis using Cons.IH [of "[]"] Cons.IH [of "[p]"] rq outer
        by (auto split: list.splits)
    next
      case (Cons q pool'')
      then show ?thesis
        using Cons.IH [of pool''] Cons.IH [of "q # pool''"] Cons.IH [of "p # q # pool''"] rq outer
        by (auto split: list.splits)
    qed
  qed
qed

lemma Kind_merge_normalize [simp]:
  "Kind (mergeMediaParameters m (normalizeChannels c)) = Kind c"
  by (simp add: mergeMediaParameters_def normalizeChannels_def Let_def)

lemma PreferredPayloadType_merge_normalize [simp]:
  "PreferredPayloadType (mergeMediaParameters m (normalizeChannels c)) = PreferredPayloadType c"
  by (simp add: mergeMediaParameters_def normalizeChannels_def Let_def)

lemma ClockRate_merge_normalize [simp]:
  "ClockRate (mergeMediaParameters m (normalizeChannels c)) = ClockRate c"
  by (simp add: mergeMediaParameters_def normalizeChannels_def Let_def)

text \<open>The step, for a configured codec that is valid and supported.\<close>

lemma routerCodecStep_matched:
  assumes "configuredMatch answer supported m = Some c"
  shows "\<exists>codec. Kind codec = Kind c \<and> PreferredPayloadType codec = PreferredPayloadType c
      \<and> ClockRate codec = ClockRate c \<and>
      routerCodecStep answer supported idx m =
       (if PreferredPayloadType c = 0 \<and> idx \<ge> length DYNAMIC_PAYLOAD_TYPES
          then ([], idx, Some AllocationError)
        else
          (let codec' = (if PreferredPayloadType c = 0
                   then codec\<lparr>PreferredPayloadType := DYNAMIC_PAYLOAD_TYPES ! idx\<rparr>
                   else codec);
               idx' = (if PreferredPayloadType c = 0 then idx + 1 else idx) in
           if Kind c = ''video'' then
             (if idx' \<ge> length DYNAMIC_PAYLOAD_TYPES
                then ([codec'], idx', Some AllocationError)
              else ([codec', rtxCodecOf codec' (DYNAMIC_PAYLOAD_TYPES ! idx')], idx' + 1, None))
           else ([codec'], idx', None)))"
proof -
  obtain m' where chk: "checkCodecCapability m = (None, m')"
    using assms by (auto simp: configuredMatch_def split: prod.splits option.splits)
  obtain a' where sel: "selectMatchedCodecs answer m' supported codecMatchNormal = ((c, True), a')"
    using assms chk by (auto simp: configuredMatch_def split: prod.splits option.splits bool.splits)
  show ?thesis
    by (rule exI [of _ "mergeMediaParameters m' (normalizeChannels c)"])
       (simp add: routerCodecStep_def chk sel Let_def)
qed


lemma poolRequests_Cons:
  "configuredMatch answer supported m = Some c \<Longrightarrow>
   poolRequests answer supported (m # ms) =
     (PreferredPayloadType c, Kind c = ''video'') # poolRequests answer supported ms"
  by (simp add: poolRequests_def map_filter_simps)

lemma drop_pool_Nil: "length DYNAMIC_PAYLOAD_TYPES \<le> idx \<Longrightarrow> drop idx DYNAMIC_PAYLOAD_TYPES = []"
  by simp

lemma drop_pool_Cons:
  "idx < length DYNAMIC_PAYLOAD_TYPES \<Longrightarrow>
   drop idx DYNAMIC_PAYLOAD_TYPES = DYNAMIC_PAYLOAD_TYPES ! idx # drop (Suc idx) DYNAMIC_PAYLOAD_TYPES"
  by (simp add: Cons_nth_drop_Suc)

lemma routerCodecLoop_pool:
  assumes "\<forall>m\<in>set ms. configuredMatch answer supported m \<noteq> None"
  shows "case spec_assignFromPool (drop idx DYNAMIC_PAYLOAD_TYPES) (poolRequests answer supported ms) of
      Some pts \<Rightarrow>
        snd (routerCodecLoop answer supported ms idx caps) = None \<and>
        map PreferredPayloadType (capCodecs (fst (routerCodecLoop answer supported ms idx caps)))
          = map PreferredPayloadType (capCodecs caps) @ pts
    | None \<Rightarrow> snd (routerCodecLoop answer supported ms idx caps) = Some AllocationError"
  using assms
proof (induction ms arbitrary: idx caps)
  case Nil
  show ?case by (simp add: poolRequests_def map_filter_simps)
next
  case (Cons m ms)
  from Cons.prems obtain c where c: "configuredMatch answer supported m = Some c" by auto
  from Cons.prems have rest: "\<forall>m\<in>set ms. configuredMatch answer supported m \<noteq> None" by simp
  note IH = Cons.IH [OF rest]
  note rq = poolRequests_Cons [OF c]
  from routerCodecStep_matched [OF c, of idx] obtain codec where
    k: "Kind codec = Kind c" and p: "PreferredPayloadType codec = PreferredPayloadType c" and
    step: "routerCodecStep answer supported idx m =
       (if PreferredPayloadType c = 0 \<and> idx \<ge> length DYNAMIC_PAYLOAD_TYPES
          then ([], idx, Some AllocationError)
        else
          (let codec' = (if PreferredPayloadType c = 0
                   then codec\<lparr>PreferredPayloadType := DYNAMIC_PAYLOAD_TYPES ! idx\<rparr>
                   else codec);
               idx' = (if PreferredPayloadType c = 0 then idx + 1 else idx) in
           if Kind c = ''video'' then
             (if idx' \<ge> length DYNAMIC_PAYLOAD_TYPES
                then ([codec'], idx', Some AllocationError)
              else ([codec', rtxCodecOf codec' (DYNAMIC_PAYLOAD_TYPES ! idx')], idx' + 1, None))
           else ([codec'], idx', None)))"
    by blast
  show ?case
  proof (cases "PreferredPayloadType c = 0")
    case True
    note pt0 = this
    show ?thesis
    proof (cases "idx < length DYNAMIC_PAYLOAD_TYPES")
      case False
      then show ?thesis using pt0 step rq by (simp add: drop_pool_Nil)
    next
      case True
      note inpool = this
      show ?thesis
      proof (cases "Kind c = ''video''")
        case False
        then show ?thesis
          using pt0 inpool step rq
            IH [of "Suc idx" "caps\<lparr>capCodecs := capCodecs caps @ [codec\<lparr>PreferredPayloadType := DYNAMIC_PAYLOAD_TYPES ! idx\<rparr>]\<rparr>"]
          by (simp add: drop_pool_Cons [OF inpool] Let_def split: option.splits)
      next
        case True
        note video = this
        show ?thesis
        proof (cases "Suc idx < length DYNAMIC_PAYLOAD_TYPES")
          case False
          then show ?thesis
            using pt0 inpool video step rq
            by (simp add: drop_pool_Cons [OF inpool] drop_pool_Nil Let_def)
        next
          case True
          then show ?thesis
            using pt0 inpool video step rq
              IH [of "Suc (Suc idx)" "caps\<lparr>capCodecs := capCodecs caps @
                 [codec\<lparr>PreferredPayloadType := DYNAMIC_PAYLOAD_TYPES ! idx\<rparr>,
                  rtxCodecOf (codec\<lparr>PreferredPayloadType := DYNAMIC_PAYLOAD_TYPES ! idx\<rparr>)
                    (DYNAMIC_PAYLOAD_TYPES ! Suc idx)]\<rparr>"]
            by (simp add: drop_pool_Cons [OF inpool] drop_pool_Cons [OF True] Let_def rtxCodecOf_def
                split: option.splits)
        qed
      qed
    qed
  next
    case False
    note ptn = this
    show ?thesis
    proof (cases "Kind c = ''video''")
      case False
      then show ?thesis
        using ptn step rq p IH [of idx "caps\<lparr>capCodecs := capCodecs caps @ [codec]\<rparr>"]
        by (simp add: Let_def split: option.splits)
    next
      case True
      note video = this
      show ?thesis
      proof (cases "idx < length DYNAMIC_PAYLOAD_TYPES")
        case False
        then show ?thesis using ptn video step rq by (simp add: drop_pool_Nil Let_def)
      next
        case True
        then show ?thesis
          using ptn video step rq p
            IH [of "Suc idx" "caps\<lparr>capCodecs := capCodecs caps @
                 [codec, rtxCodecOf codec (DYNAMIC_PAYLOAD_TYPES ! idx)]\<rparr>"]
          by (simp add: drop_pool_Cons [OF True] Let_def rtxCodecOf_def split: option.splits)
      qed
    qed
  qed
qed


lemma rtxFollows_append:
  assumes "rtxFollows xs" "rtxFollows ys"
  shows "rtxFollows (xs @ ys)"
  unfolding rtxFollows_def
proof (intro allI impI)
  fix i
  assume i: "i < length (xs @ ys)"
    and v: "Kind ((xs @ ys) ! i) = ''video'' \<and> MimeType ((xs @ ys) ! i) \<noteq> ''video/rtx''"
  let ?P = "\<lambda>c r. MimeType r = Kind c @ ''/rtx'' \<and> ClockRate r = ClockRate c \<and>
       RtcpFeedback r = [] \<and> map_option Apt (Parameters r) = Some (PreferredPayloadType c)"
  show "Suc i < length (xs @ ys) \<and> ?P ((xs @ ys) ! i) ((xs @ ys) ! Suc i)"
  proof (cases "i < length xs")
    case True
    then have eq: "(xs @ ys) ! i = xs ! i" by (simp add: nth_append)
    with assms(1) True v have s: "Suc i < length xs" and P: "?P (xs ! i) (xs ! Suc i)"
      unfolding rtxFollows_def by auto
    from s have "(xs @ ys) ! Suc i = xs ! Suc i" by (simp add: nth_append)
    with eq s P show ?thesis by simp
  next
    case False
    define j where "j = i - length xs"
    from False i have j: "j < length ys" and ij: "i = length xs + j" by (auto simp: j_def)
    have eq: "(xs @ ys) ! i = ys ! j" by (simp add: ij)
    with assms(2) j v have s: "Suc j < length ys" and P: "?P (ys ! j) (ys ! Suc j)"
      unfolding rtxFollows_def by auto
    have "(xs @ ys) ! Suc i = ys ! Suc j" by (simp add: ij nth_append)
    with eq s P ij show ?thesis by simp
  qed
qed

lemma rtxFollows_pair:
  "Kind c = ''video'' \<Longrightarrow> rtxFollows [c, rtxCodecOf c pt]"
  by (simp add: rtxFollows_def rtxCodecOf_def less_Suc_eq zeroCodecParameter_def)

lemma rtxFollows_single: "Kind c \<noteq> ''video'' \<Longrightarrow> rtxFollows [c]"
  by (simp add: rtxFollows_def)

lemma routerCodecStep_rtxFollows:
  assumes "routerCodecStep answer supported idx m = (out, idx', None)"
  shows "rtxFollows out"
  using assms
  by (auto simp: routerCodecStep_def Let_def rtxFollows_pair rtxFollows_single
      split: prod.splits option.splits bool.splits if_splits)

lemma routerCodecLoop_rtxFollows:
  assumes "routerCodecLoop answer supported ms idx caps = (caps', None)" "rtxFollows (capCodecs caps)"
  shows "rtxFollows (capCodecs caps')"
  using assms
proof (induction ms arbitrary: idx caps)
  case Nil
  then show ?case by simp
next
  case (Cons m ms)
  obtain out idx1 e where step: "routerCodecStep answer supported idx m = (out, idx1, e)"
    by (cases "routerCodecStep answer supported idx m") auto
  show ?case
  proof (cases e)
    case (Some err)
    with Cons.prems(1) step show ?thesis by simp
  next
    case None
    with step have "rtxFollows out" by (simp add: routerCodecStep_rtxFollows)
    with Cons.prems(2) have inv: "rtxFollows (capCodecs (caps\<lparr>capCodecs := capCodecs caps @ out\<rparr>))"
      by (simp add: rtxFollows_append)
    from Cons.prems(1) step None
    have "routerCodecLoop answer supported ms idx1 (caps\<lparr>capCodecs := capCodecs caps @ out\<rparr>) = (caps', None)"
      by simp
    from Cons.IH [OF this inv] show ?thesis .
  qed
qed

text \<open>
  Claim C3. In every capability set that \<^verbatim>\<open>GenerateRouterRtpCapabilities\<close> returns
  without an error, every codec of kind video is immediately followed by its synthesized
  RTX sibling: a codec with mime type \<^verbatim>\<open>video/rtx\<close>, the same clock rate, no RTCP
  feedback and the \<^verbatim>\<open>apt\<close> parameter equal to the payload type assigned to the video
  codec. The \<^verbatim>\<open>video/rtx\<close> codecs are the followers the claim speaks of, not video
  codecs that owe a sibling of their own.
\<close>

theorem video_codec_followed_by_rtx:
  assumes "GenerateRouterRtpCapabilities answer supported mediaCodecs = (caps, None)"
    and "i < length (capCodecs caps)"
    and "Kind (capCodecs caps ! i) = ''video''"
    and "MimeType (capCodecs caps ! i) \<noteq> ''video/rtx''"
  shows "Suc i < length (capCodecs caps) \<and>
     MimeType (capCodecs caps ! Suc i) = ''video/rtx'' \<and>
     ClockRate (capCodecs caps ! Suc i) = ClockRate (capCodecs caps ! i) \<and>
     RtcpFeedback (capCodecs caps ! Suc i) = [] \<and>
     map_option Apt (Parameters (capCodecs caps ! Suc i))
       = Some (PreferredPayloadType (capCodecs caps ! i))"
proof -
  from assms(1) have loop: "routerCodecLoop answer (capCodecs supported) mediaCodecs 0
            (zeroCapabilities\<lparr>
               capHeaderExtensions := capHeaderExtensions supported,
               FecMechanisms := FecMechanisms supported\<rparr>) = (caps, None)"
    by (simp add: GenerateRouterRtpCapabilities_def split: if_splits)
  have "rtxFollows (capCodecs (zeroCapabilities\<lparr>
               capHeaderExtensions := capHeaderExtensions supported,
               FecMechanisms := FecMechanisms supported\<rparr>))"
    by (simp add: zeroCapabilities_def rtxFollows_def)
  from routerCodecLoop_rtxFollows [OF loop this] assms(2-4) show ?thesis
    unfolding rtxFollows_def by auto
qed

text \<open>Scenario B of the specification: VP8 at 100, its sibling at 101 with apt 100.\<close>

theorem video_codec_followed_by_rtx_witness:
  "Suc 0 < length (capCodecs (fst (GenerateRouterRtpCapabilities noAnswer supportedExample [vp8Codec]))) \<and>
   MimeType (capCodecs (fst (GenerateRouterRtpCapabilities noAnswer supportedExample [vp8Codec])) ! Suc 0)
     = ''video/rtx'' \<and>
   map_option Apt (Parameters
      (capCodecs (fst (GenerateRouterRtpCapabilities noAnswer supportedExample [vp8Codec])) ! Suc 0))
     = Some 100"
proof -
  let ?r = "GenerateRouterRtpCapabilities noAnswer supportedExample [vp8Codec]"
  have h1: "?r = (fst ?r, None)" by code_simp
  have h2: "0 < length (capCodecs (fst ?r))" by code_simp
  have h3: "Kind (capCodecs (fst ?r) ! 0) = ''video''" by code_simp
  have h4: "MimeType (capCodecs (fst ?r) ! 0) \<noteq> ''video/rtx''" by code_simp
  have h5: "PreferredPayloadType (capCodecs (fst ?r) ! 0) = 100" by code_simp
  from video_codec_followed_by_rtx [OF h1 h2 h3 h4] h5 show ?thesis by simp
qed

text \<open>
  Claim C10. For the empty list of configured codecs \<^verbatim>\<open>GenerateRouterRtpCapabilities\<close>
  returns a type error and the empty capability set.
\<close>

theorem empty_mediaCodecs_rejected:
  "GenerateRouterRtpCapabilities answer supported [] = (zeroCapabilities, Some TypeError)"
  by (simp add: GenerateRouterRtpCapabilities_def)


lemma pool_ranges: "DYNAMIC_PAYLOAD_TYPES = [100..127] @ [96..99] @ [77..95] @ [35..71]"
  by (simp add: DYNAMIC_PAYLOAD_TYPES_def upto.simps)

lemma pool_length: "length DYNAMIC_PAYLOAD_TYPES = 88"
  by (simp add: DYNAMIC_PAYLOAD_TYPES_def)

lemma pool_distinct: "distinct DYNAMIC_PAYLOAD_TYPES"
  by code_simp

lemma generate_pool:
  assumes "mediaCodecs \<noteq> []"
    and "\<forall>m\<in>set mediaCodecs. configuredMatch answer (capCodecs supported) m \<noteq> None"
  shows "case spec_assignFromPool DYNAMIC_PAYLOAD_TYPES
                (poolRequests answer (capCodecs supported) mediaCodecs) of
      Some pts \<Rightarrow>
        snd (GenerateRouterRtpCapabilities answer supported mediaCodecs) = None \<and>
        map PreferredPayloadType
          (capCodecs (fst (GenerateRouterRtpCapabilities answer supported mediaCodecs))) = pts
    | None \<Rightarrow>
        snd (GenerateRouterRtpCapabilities answer supported mediaCodecs) = Some AllocationError"
proof -
  let ?caps = "zeroCapabilities\<lparr>
               capHeaderExtensions := capHeaderExtensions supported,
               FecMechanisms := FecMechanisms supported\<rparr>"
  have eq: "GenerateRouterRtpCapabilities answer supported mediaCodecs
      = routerCodecLoop answer (capCodecs supported) mediaCodecs 0 ?caps"
    using assms(1) by (simp add: GenerateRouterRtpCapabilities_def)
  have nil: "capCodecs ?caps = []" by (simp add: zeroCapabilities_def)
  from routerCodecLoop_pool [OF assms(2), of 0 ?caps] show ?thesis
    unfolding eq nil by (simp split: option.splits)
qed

text \<open>
  Claim C2, as amended. The pool holds 88 numbers, all different, in the order 100 to
  127, 96 to 99, 77 to 95, 35 to 71. For configured codecs that are all valid and supported, the code
  assigns the payload types that popping the pool in this order assigns: one entry for
  a codec whose preferred payload type is 0, one for the RTX sibling of a video codec.
  When the codecs need more than 88 entries, and only then, the call fails with the
  allocation error; it never returns a shortened list without an error.
\<close>

theorem dynamic_payload_type_pool:
  assumes "mediaCodecs \<noteq> []"
    and "\<forall>m\<in>set mediaCodecs. configuredMatch answer (capCodecs supported) m \<noteq> None"
  shows "DYNAMIC_PAYLOAD_TYPES = [100..127] @ [96..99] @ [77..95] @ [35..71] \<and>
     length DYNAMIC_PAYLOAD_TYPES = 88 \<and> distinct DYNAMIC_PAYLOAD_TYPES \<and>
     (spec_assignFromPool DYNAMIC_PAYLOAD_TYPES (poolRequests answer (capCodecs supported) mediaCodecs) = None
        \<longleftrightarrow> 88 < poolDemand (poolRequests answer (capCodecs supported) mediaCodecs)) \<and>
     (case spec_assignFromPool DYNAMIC_PAYLOAD_TYPES
                (poolRequests answer (capCodecs supported) mediaCodecs) of
        Some pts \<Rightarrow>
          snd (GenerateRouterRtpCapabilities answer supported mediaCodecs) = None \<and>
          map PreferredPayloadType
            (capCodecs (fst (GenerateRouterRtpCapabilities answer supported mediaCodecs))) = pts
      | None \<Rightarrow>
          snd (GenerateRouterRtpCapabilities answer supported mediaCodecs) = Some AllocationError)"
  using generate_pool [OF assms] pool_ranges pool_length pool_distinct
    spec_assignFromPool_None_iff [of DYNAMIC_PAYLOAD_TYPES]
  by (simp split: option.splits)

text \<open>An audio and a video codec draw 100, 101 and 102.\<close>

theorem dynamic_payload_type_pool_witness:
  "[opusCodec, vp8Codec] \<noteq> [] \<and>
   configuredMatch noAnswer (capCodecs supportedExample) opusCodec \<noteq> None \<and>
   configuredMatch noAnswer (capCodecs supportedExample) vp8Codec \<noteq> None \<and>
   snd (GenerateRouterRtpCapabilities noAnswer supportedExample [opusCodec, vp8Codec]) = None \<and>
   map PreferredPayloadType
     (capCodecs (fst (GenerateRouterRtpCapabilities noAnswer supportedExample [opusCodec, vp8Codec])))
     = [100, 101, 102]"
proof -
  have h1: "[opusCodec, vp8Codec] \<noteq> []" by simp
  have m1: "configuredMatch noAnswer (capCodecs supportedExample) opusCodec \<noteq> None" by code_simp
  have m2: "configuredMatch noAnswer (capCodecs supportedExample) vp8Codec \<noteq> None" by code_simp
  have h2: "\<forall>m\<in>set [opusCodec, vp8Codec].
      configuredMatch noAnswer (capCodecs supportedExample) m \<noteq> None"
    using m1 m2 by simp
  have a: "spec_assignFromPool DYNAMIC_PAYLOAD_TYPES
      (poolRequests noAnswer (capCodecs supportedExample) [opusCodec, vp8Codec]) = Some [100, 101, 102]"
    by code_simp
  from dynamic_payload_type_pool [OF h1 h2] a m1 m2 show ?thesis by simp
qed

lemma poolRequests_replicate:
  "configuredMatch answer supported m = Some c \<Longrightarrow>
   poolRequests answer supported (replicate n m) = replicate n (PreferredPayloadType c, Kind c = ''video'')"
  by (induction n) (simp_all add: poolRequests_def)

lemma poolDemand_replicate_audio: "poolDemand (replicate n (0, False)) = n"
  by (induction n) simp_all

text \<open>
  Claim C2 as it is written fails: the pool has 88 entries, not 74, and 75 codecs that
  each need a dynamic payload type are served without an error.
\<close>

theorem pool_of_74_counterexample:
  "length DYNAMIC_PAYLOAD_TYPES = 88 \<and>
   poolDemand (poolRequests noAnswer (capCodecs supportedExample) (replicate 75 opusCodec)) = 75 \<and>
   snd (GenerateRouterRtpCapabilities noAnswer supportedExample (replicate 75 opusCodec)) = None"
proof -
  have m: "configuredMatch noAnswer (capCodecs supportedExample) opusCodec = Some opusCodec"
    by code_simp
  have pk: "PreferredPayloadType opusCodec = 0" "Kind opusCodec \<noteq> ''video''" by code_simp+
  have rq: "poolRequests noAnswer (capCodecs supportedExample) (replicate 75 opusCodec)
      = replicate 75 (0, False)"
    using poolRequests_replicate [OF m, of 75] pk by simp
  have d: "poolDemand (poolRequests noAnswer (capCodecs supportedExample) (replicate 75 opusCodec)) = 75"
    by (simp add: rq poolDemand_replicate_audio)
  have ne: "replicate 75 opusCodec \<noteq> []" by simp
  have all: "\<forall>x\<in>set (replicate 75 opusCodec).
      configuredMatch noAnswer (capCodecs supportedExample) x \<noteq> None"
    using m by simp
  have "spec_assignFromPool DYNAMIC_PAYLOAD_TYPES
      (poolRequests noAnswer (capCodecs supportedExample) (replicate 75 opusCodec)) \<noteq> None"
    using spec_assignFromPool_None_iff [of DYNAMIC_PAYLOAD_TYPES] d pool_length by simp
  with generate_pool [OF ne all]
  have "snd (GenerateRouterRtpCapabilities noAnswer supportedExample (replicate 75 opusCodec)) = None"
    by (auto split: option.splits)
  with d pool_length show ?thesis by simp
qed


section \<open>The matcher\<close>

lemma strict_no_modify: "\<not> 0 < codecMatchStrict AND codecMatchModify"
  by (simp add: codecMatchStrict_def codecMatchModify_def)

lemma matchedCodecs_unchanged:
  "\<not> 0 < mode AND codecMatchModify \<Longrightarrow> snd (matchedCodecs answer a b mode) = a"
  by (simp add: matchedCodecs_def Let_def split: option.splits)

lemma selectMatchedCodecs_find:
  assumes "\<not> 0 < mode AND codecMatchModify"
  shows "selectMatchedCodecs answer a bs mode =
     ((case find (\<lambda>b. fst (matchedCodecs answer a b mode)) bs of
         None \<Rightarrow> (zeroCodec, False) | Some b \<Rightarrow> (b, True)), a)"
proof (induction bs)
  case Nil
  show ?case by simp
next
  case (Cons b bs)
  obtain v a' where m: "matchedCodecs answer a b mode = (v, a')"
    by (cases "matchedCodecs answer a b mode")
  with matchedCodecs_unchanged [OF assms, of answer a b] have a': "a' = a" by simp
  show ?case using m a' Cons.IH by (cases v) simp_all
qed

lemma selectMatchedCodecs_strict:
  "selectMatchedCodecs answer a bs codecMatchStrict =
     ((case find (strictMatch answer a) bs of
         None \<Rightarrow> (zeroCodec, False) | Some b \<Rightarrow> (b, True)), a)"
  using selectMatchedCodecs_find [OF strict_no_modify, of answer a bs]
  by (simp add: strictMatch_def [abs_def])

text \<open>
  Claim C4. In every mode the matcher reports a match only if the mime types are equal
  up to letter case and the clock rates are equal; for an audio mime type, two nonzero
  channel counts must be equal, and a zero count on either side never makes a mismatch
  (the verdict is the one for equal counts); for \<^verbatim>\<open>video/h264\<close> in any letter case the
  packetization modes must be equal, a missing parameter block counting as mode 0.
\<close>

theorem matchedCodecs_requirements:
  "(fst (matchedCodecs answer a b mode) \<longrightarrow>
      ToLower (MimeType a) = ToLower (MimeType b) \<and>
      ClockRate a = ClockRate b \<and>
      (HasPrefix (ToLower (MimeType a)) ''audio/'' \<and> 0 \<le> Channels a \<and> 0 \<le> Channels b
         \<and> Channels a \<noteq> 0 \<and> Channels b \<noteq> 0 \<longrightarrow> Channels a = Channels b) \<and>
      (ToLower (MimeType a) = ''video/h264'' \<longrightarrow>
         (case Parameters a of None \<Rightarrow> 0 | Some p \<Rightarrow> PacketizationMode (H264Parameter p))
           = (case Parameters b of None \<Rightarrow> 0 | Some p \<Rightarrow> PacketizationMode (H264Parameter p)))) \<and>
   (Channels a = 0 \<or> Channels b = 0 \<longrightarrow>
      fst (matchedCodecs answer a b mode)
        = fst (matchedCodecs answer (a\<lparr>Channels := Channels b\<rparr>) b mode))"
  by (auto simp: matchedCodecs_def Let_def paramsOrZero_def zeroCodecParameter_def
        zeroH264Parameter_def split: if_splits option.splits)

text \<open>
  A producer's stereo opus codec against the router's, and the same codec with no channel
  count.
\<close>

theorem matchedCodecs_requirements_witness:
  "fst (matchedCodecs noAnswer producerOpus opusCodec codecMatchStrict) \<and>
   0 \<le> Channels producerOpus \<and> 0 \<le> Channels opusCodec \<and>
   Channels producerOpus \<noteq> 0 \<and> Channels opusCodec \<noteq> 0 \<and>
   ToLower (MimeType producerOpus) = ToLower (MimeType opusCodec) \<and>
   ClockRate producerOpus = ClockRate opusCodec \<and>
   Channels producerOpus = Channels opusCodec \<and>
   Channels (producerOpus\<lparr>Channels := 0\<rparr>) = 0 \<and>
   fst (matchedCodecs noAnswer (producerOpus\<lparr>Channels := 0\<rparr>) opusCodec codecMatchStrict)"
proof -
  have h: "fst (matchedCodecs noAnswer producerOpus opusCodec codecMatchStrict)" by code_simp
  have a: "HasPrefix (ToLower (MimeType producerOpus)) ''audio/'' \<and>
      0 \<le> Channels producerOpus \<and> 0 \<le> Channels opusCodec \<and>
      Channels producerOpus \<noteq> 0 \<and> Channels opusCodec \<noteq> 0"
    by code_simp
  have z: "Channels (producerOpus\<lparr>Channels := 0\<rparr>) = 0" by simp
  have e: "(producerOpus\<lparr>Channels := 0\<rparr>)\<lparr>Channels := Channels opusCodec\<rparr> = producerOpus"
    by code_simp
  from matchedCodecs_requirements [of noAnswer producerOpus opusCodec codecMatchStrict] h a
  have first: "ToLower (MimeType producerOpus) = ToLower (MimeType opusCodec) \<and>
      ClockRate producerOpus = ClockRate opusCodec \<and>
      Channels producerOpus = Channels opusCodec"
    by blast
  from matchedCodecs_requirements
         [of noAnswer "producerOpus\<lparr>Channels := 0\<rparr>" opusCodec codecMatchStrict] z
  have "fst (matchedCodecs noAnswer (producerOpus\<lparr>Channels := 0\<rparr>) opusCodec codecMatchStrict)
      = fst (matchedCodecs noAnswer
               ((producerOpus\<lparr>Channels := 0\<rparr>)\<lparr>Channels := Channels opusCodec\<rparr>)
               opusCodec codecMatchStrict)"
    by blast
  with e h have second:
    "fst (matchedCodecs noAnswer (producerOpus\<lparr>Channels := 0\<rparr>) opusCodec codecMatchStrict)"
    by simp
  from h a z first second show ?thesis by blast
qed


section \<open>Producer mapping\<close>

text \<open>
  Claim C1 fails on the code. A producer that offers VP9 alone to a router that has only
  VP8 gets the unsupported-codec error together with a mapping that sends payload type 98
  to 0: the branch that sets the error does not return. With a valid codec after the
  unsupported one the next round overwrites the error, and the call returns no error at
  all.
\<close>

theorem unsupported_codec_mapping_returned:
  "GetProducerRtpParametersMapping noAnswer noRandom (\<lambda>entries. entries)
     (zeroParameters\<lparr>Codecs := [producerVP9]\<rparr>) routerVP8
     = Returns (zeroMapping\<lparr>mapCodecs := [\<lparr>mcPayloadType = 98, MappedPayloadType = 0\<rparr>]\<rparr>,
                Some UnsupportedError) \<and>
   GetProducerRtpParametersMapping noAnswer noRandom (\<lambda>entries. entries)
     (zeroParameters\<lparr>Codecs := [producerVP9, producerVP8]\<rparr>) routerVP8
     = Returns (zeroMapping\<lparr>mapCodecs := [\<lparr>mcPayloadType = 98, MappedPayloadType = 0\<rparr>,
                  \<lparr>mcPayloadType = 96, MappedPayloadType = 100\<rparr>]\<rparr>, None)"
  by code_simp


section \<open>Consumable parameters\<close>

lemma capCodecOfPayloadType_find:
  "capCodecOfPayloadType caps pt =
     (case find (\<lambda>c. PreferredPayloadType c = pt) caps of None \<Rightarrow> zeroCodec | Some c \<Rightarrow> c)"
  by (induction caps) simp_all

lemma mappedPayloadTypeOf_find:
  "mappedPayloadTypeOf entries pt =
     (case find (\<lambda>e. mcPayloadType e = pt) entries of None \<Rightarrow> 0 | Some e \<Rightarrow> MappedPayloadType e)"
  by (induction entries) simp_all

lemma consumableCodecStep_Returns:
  assumes "consumableCodecStep caps entries codec = Returns out"
  shows "out \<noteq> [] \<and>
     hd out = consumableCodecOf
                (capCodecOfPayloadType caps (mappedPayloadTypeOf entries (PayloadType codec))) codec"
  using assms
  by (auto simp: consumableCodecStep_def Let_def split: outcome.splits option.splits)

lemma consumableCodecs_groups:
  assumes "consumableCodecs caps entries cs acc = Returns (out, err)"
  shows "(err = None \<longleftrightarrow> (\<forall>c\<in>set cs. checkCodecParameters c = None)) \<and>
     (\<exists>outs. out = acc @ concat outs \<and>
       list_all2 (\<lambda>codec emitted. consumableCodecStep caps entries codec = Returns emitted)
         (filter (\<lambda>c. \<not> isRtxMime c) (takeWhile (\<lambda>c. checkCodecParameters c = None) cs)) outs)"
  using assms
proof (induction cs arbitrary: acc)
  case Nil
  then show ?case by simp
next
  case (Cons c cs)
  show ?case
  proof (cases "checkCodecParameters c")
    case (Some e)
    with Cons.prems have "out = acc" "err = Some e" by simp_all
    moreover have "takeWhile (\<lambda>c. checkCodecParameters c = None) (c # cs) = []"
      using Some by simp
    moreover have "\<not> (\<forall>c\<in>set (c # cs). checkCodecParameters c = None)"
      using Some by simp
    ultimately show ?thesis
      by (intro conjI exI [of _ "[]"]) simp_all
  next
    case None
    note ok = this
    show ?thesis
    proof (cases "isRtxMime c")
      case True
      with Cons.prems ok have "consumableCodecs caps entries cs acc = Returns (out, err)" by simp
      from Cons.IH [OF this] True ok show ?thesis by simp
    next
      case False
      with Cons.prems ok obtain emitted where
        step: "consumableCodecStep caps entries c = Returns emitted" and
        rest: "consumableCodecs caps entries cs (acc @ emitted) = Returns (out, err)"
        by (auto split: outcome.splits)
      from Cons.IH [OF rest] obtain outs where
        e: "err = None \<longleftrightarrow> (\<forall>c\<in>set cs. checkCodecParameters c = None)" and
        "out = (acc @ emitted) @ concat outs" and
        "list_all2 (\<lambda>codec emitted. consumableCodecStep caps entries codec = Returns emitted)
           (filter (\<lambda>c. \<not> isRtxMime c) (takeWhile (\<lambda>c. checkCodecParameters c = None) cs)) outs"
        by blast
      with step False ok show ?thesis
        by (intro conjI exI [of _ "emitted # outs"]) simp_all
    qed
  qed
qed

lemma consumableCodecStep_fields:
  assumes "consumableCodecStep caps entries codec = Returns emitted"
    and e: "find (\<lambda>e. mcPayloadType e = PayloadType codec) entries = Some entry"
    and c: "find (\<lambda>c. PreferredPayloadType c = MappedPayloadType entry) caps = Some capCodec"
  shows "MimeType (hd emitted) = MimeType capCodec \<and>
         ClockRate (hd emitted) = ClockRate capCodec \<and>
         Channels (hd emitted) = Channels capCodec \<and>
         RtcpFeedback (hd emitted) = RtcpFeedback capCodec \<and>
         PayloadType (hd emitted) = MappedPayloadType entry"
proof -
  have m: "mappedPayloadTypeOf entries (PayloadType codec) = MappedPayloadType entry"
    using e by (simp add: mappedPayloadTypeOf_find)
  have cc: "capCodecOfPayloadType caps (MappedPayloadType entry) = capCodec"
    using c by (simp add: capCodecOfPayloadType_find)
  have pt: "PreferredPayloadType capCodec = MappedPayloadType entry"
    using c by (auto simp: find_Some_iff)
  from consumableCodecStep_Returns [OF assms(1)] m cc pt show ?thesis
    by (simp add: consumableCodecOf_def)
qed

lemma consumableCodecStep_parameters:
  assumes "consumableCodecStep caps entries codec = Returns emitted"
  shows "emitted \<noteq> [] \<and> Parameters (hd emitted) = Parameters codec"
  using consumableCodecStep_Returns [OF assms] by (simp add: consumableCodecOf_def)

text \<open>
  Claim C6. Whenever \<^verbatim>\<open>GetConsumableRtpParameters\<close> returns, its codec list is made of
  one group per producer codec that it processed (the codecs before the first invalid
  one) and that is not an RTX codec, in order. The first codec of a group keeps the
  parameters of the producer codec, and takes mime type, clock rate, channels and RTCP
  feedback (and its payload type) from the capability codec whose preferred payload type
  is the payload type the mapping gives for the producer codec. When it returns without
  an error, the RTCP configuration has the producer's cname, reducedSize true and mux
  true.
\<close>

theorem consumable_codec_fields:
  assumes "GetConsumableRtpParameters kind params caps rtpMapping = Returns (consumableParams, err)"
  shows "(err = None \<longrightarrow>
        Rtcp consumableParams
          = \<lparr>Cname = Cname (Rtcp params), ReducedSize = True, Mux = Some True\<rparr>) \<and>
     (\<exists>outs. Codecs consumableParams = concat outs \<and>
        list_all2
          (\<lambda>codec emitted. emitted \<noteq> [] \<and>
             Parameters (hd emitted) = Parameters codec \<and>
             (\<forall>entry capCodec.
                find (\<lambda>e. mcPayloadType e = PayloadType codec) (mapCodecs rtpMapping) = Some entry \<and>
                find (\<lambda>c. PreferredPayloadType c = MappedPayloadType entry) (capCodecs caps)
                  = Some capCodec \<longrightarrow>
                MimeType (hd emitted) = MimeType capCodec \<and>
                ClockRate (hd emitted) = ClockRate capCodec \<and>
                Channels (hd emitted) = Channels capCodec \<and>
                RtcpFeedback (hd emitted) = RtcpFeedback capCodec \<and>
                PayloadType (hd emitted) = MappedPayloadType entry))
          (filter (\<lambda>c. \<not> HasSuffix (ToLower (MimeType c)) ''/rtx'')
             (takeWhile (\<lambda>c. MimeType c \<noteq> [] \<and> ClockRate c \<noteq> 0) (Codecs params)))
          outs)"
proof -
  from assms obtain codecs where
    loop: "consumableCodecs (capCodecs caps) (mapCodecs rtpMapping) (Codecs params) []
             = Returns (codecs, err)" and
    cs: "Codecs consumableParams = codecs" and
    rtcp: "err = None \<longrightarrow> Rtcp consumableParams
          = \<lparr>Cname = Cname (Rtcp params), ReducedSize = True, Mux = Some True\<rparr>"
    by (auto simp: GetConsumableRtpParameters_def zeroParameters_def
          split: outcome.splits option.splits)
  have valid: "(\<lambda>c. checkCodecParameters c = None) = (\<lambda>c. MimeType c \<noteq> [] \<and> ClockRate c \<noteq> 0)"
    by (auto simp: checkCodecParameters_def)
  from consumableCodecs_groups [OF loop] obtain outs where
    cat: "codecs = concat outs" and
    each: "list_all2
       (\<lambda>codec emitted. consumableCodecStep (capCodecs caps) (mapCodecs rtpMapping) codec
                           = Returns emitted)
       (filter (\<lambda>c. \<not> isRtxMime c)
          (takeWhile (\<lambda>c. MimeType c \<noteq> [] \<and> ClockRate c \<noteq> 0) (Codecs params))) outs"
    unfolding valid by auto
  have "list_all2
          (\<lambda>codec emitted. emitted \<noteq> [] \<and>
             Parameters (hd emitted) = Parameters codec \<and>
             (\<forall>entry capCodec.
                find (\<lambda>e. mcPayloadType e = PayloadType codec) (mapCodecs rtpMapping) = Some entry \<and>
                find (\<lambda>c. PreferredPayloadType c = MappedPayloadType entry) (capCodecs caps)
                  = Some capCodec \<longrightarrow>
                MimeType (hd emitted) = MimeType capCodec \<and>
                ClockRate (hd emitted) = ClockRate capCodec \<and>
                Channels (hd emitted) = Channels capCodec \<and>
                RtcpFeedback (hd emitted) = RtcpFeedback capCodec \<and>
                PayloadType (hd emitted) = MappedPayloadType entry))
          (filter (\<lambda>c. \<not> isRtxMime c)
             (takeWhile (\<lambda>c. MimeType c \<noteq> [] \<and> ClockRate c \<noteq> 0) (Codecs params))) outs"
    using each
  proof (rule list_all2_mono)
    fix codec emitted
    assume "consumableCodecStep (capCodecs caps) (mapCodecs rtpMapping) codec = Returns emitted"
    from consumableCodecStep_parameters [OF this] consumableCodecStep_fields [OF this]
    show "emitted \<noteq> [] \<and>
             Parameters (hd emitted) = Parameters codec \<and>
             (\<forall>entry capCodec.
                find (\<lambda>e. mcPayloadType e = PayloadType codec) (mapCodecs rtpMapping) = Some entry \<and>
                find (\<lambda>c. PreferredPayloadType c = MappedPayloadType entry) (capCodecs caps)
                  = Some capCodec \<longrightarrow>
                MimeType (hd emitted) = MimeType capCodec \<and>
                ClockRate (hd emitted) = ClockRate capCodec \<and>
                Channels (hd emitted) = Channels capCodec \<and>
                RtcpFeedback (hd emitted) = RtcpFeedback capCodec \<and>
                PayloadType (hd emitted) = MappedPayloadType entry)"
      by blast
  qed
  with cat cs rtcp show ?thesis
    by (auto simp: isRtxMime_def [abs_def])
qed

text \<open>A VP8 producer with RTX on the VP8 router; the producer asked for no reduced size and no mux.\<close>

theorem consumable_codec_fields_witness:
  "GetConsumableRtpParameters ''video'' producerExample routerVP8 mappingExample
     = Returns (zeroParameters\<lparr>Codecs :=
          [zeroCodec\<lparr>MimeType := ''video/VP8'', ClockRate := 90000, PayloadType := 100\<rparr>,
           zeroCodec\<lparr>MimeType := ''video/rtx'', ClockRate := 90000, PayloadType := 101,
             Parameters := Some (zeroCodecParameter\<lparr>Apt := 100\<rparr>)\<rparr>],
          Rtcp := \<lparr>Cname = ''cname'', ReducedSize = True, Mux = Some True\<rparr>\<rparr>, None) \<and>
   Rtcp (zeroParameters\<lparr>Codecs :=
          [zeroCodec\<lparr>MimeType := ''video/VP8'', ClockRate := 90000, PayloadType := 100\<rparr>,
           zeroCodec\<lparr>MimeType := ''video/rtx'', ClockRate := 90000, PayloadType := 101,
             Parameters := Some (zeroCodecParameter\<lparr>Apt := 100\<rparr>)\<rparr>],
          Rtcp := \<lparr>Cname = ''cname'', ReducedSize = True, Mux = Some True\<rparr>\<rparr>)
     = \<lparr>Cname = Cname (Rtcp producerExample), ReducedSize = True, Mux = Some True\<rparr>"
proof -
  have h: "GetConsumableRtpParameters ''video'' producerExample routerVP8 mappingExample
     = Returns (zeroParameters\<lparr>Codecs :=
          [zeroCodec\<lparr>MimeType := ''video/VP8'', ClockRate := 90000, PayloadType := 100\<rparr>,
           zeroCodec\<lparr>MimeType := ''video/rtx'', ClockRate := 90000, PayloadType := 101,
             Parameters := Some (zeroCodecParameter\<lparr>Apt := 100\<rparr>)\<rparr>],
          Rtcp := \<lparr>Cname = ''cname'', ReducedSize = True, Mux = Some True\<rparr>\<rparr>, None)"
    by code_simp
  from consumable_codec_fields [OF h] h show ?thesis by blast
qed

text \<open>
  Every group the codec loop emits is a media codec alone or a media codec followed by one
  RTX codec whose \<^verbatim>\<open>apt\<close> is the payload type of that media codec.
\<close>

lemma findCapRtxCodec_Some:
  assumes "findCapRtxCodec caps pt = Returns (Some r)"
  shows "r \<in> set caps \<and> isRtxMime r \<and> map_option Apt (Parameters r) = Some pt"
  using assms
  by (induction caps) (auto split: if_splits option.splits)

lemma consumableCodecStep_rtx_apt:
  assumes "consumableCodecStep caps entries codec = Returns emitted"
  shows "emitted = [hd emitted] \<or>
     (\<exists>r. emitted = [hd emitted, r] \<and> HasSuffix (ToLower (MimeType r)) ''/rtx'' \<and>
          map_option Apt (Parameters r) = Some (PayloadType (hd emitted)))"
proof -
  let ?c = "consumableCodecOf
      (capCodecOfPayloadType caps (mappedPayloadTypeOf entries (PayloadType codec))) codec"
  show ?thesis
  proof (cases "findCapRtxCodec caps (PayloadType ?c)")
    case Panics
    with assms show ?thesis by (simp add: consumableCodecStep_def Let_def)
  next
    case (Returns found)
    show ?thesis
    proof (cases found)
      case None
      with Returns assms show ?thesis by (auto simp: consumableCodecStep_def Let_def)
    next
      case (Some r)
      with Returns have "findCapRtxCodec caps (PayloadType ?c) = Returns (Some r)" by simp
      from findCapRtxCodec_Some [OF this] Returns Some assms show ?thesis
        by (auto simp: consumableCodecStep_def Let_def consumableRtxCodecOf_def isRtxMime_def)
    qed
  qed
qed

text \<open>
  Claim C7 fails on the code, through the defect of claim C1. The three calls succeed for
  a producer that offers VP9 and VP8 to the VP8 router, in either order of the mapping's
  entries, and the consumable codecs have the payload types 0, 100 and 101, of which 0 is
  no payload type of the router's capabilities.
\<close>

theorem round_trip_payload_type_escapes:
  "GenerateRouterRtpCapabilities noAnswer supportedExample [vp8Codec] = (routerVP8, None) \<and>
   map PreferredPayloadType (capCodecs routerVP8) = [100, 101] \<and>
   GetProducerRtpParametersMapping noAnswer noRandom (\<lambda>entries. entries)
     (zeroParameters\<lparr>Codecs := [producerVP9, producerVP8]\<rparr>) routerVP8
     = Returns (zeroMapping\<lparr>mapCodecs := [\<lparr>mcPayloadType = 98, MappedPayloadType = 0\<rparr>,
                  \<lparr>mcPayloadType = 96, MappedPayloadType = 100\<rparr>]\<rparr>, None) \<and>
   GetProducerRtpParametersMapping noAnswer noRandom rev
     (zeroParameters\<lparr>Codecs := [producerVP9, producerVP8]\<rparr>) routerVP8
     = Returns (zeroMapping\<lparr>mapCodecs := [\<lparr>mcPayloadType = 96, MappedPayloadType = 100\<rparr>,
                  \<lparr>mcPayloadType = 98, MappedPayloadType = 0\<rparr>]\<rparr>, None) \<and>
   (case GetConsumableRtpParameters ''video''
           (zeroParameters\<lparr>Codecs := [producerVP9, producerVP8]\<rparr>) routerVP8
           (zeroMapping\<lparr>mapCodecs := [\<lparr>mcPayloadType = 98, MappedPayloadType = 0\<rparr>,
                  \<lparr>mcPayloadType = 96, MappedPayloadType = 100\<rparr>]\<rparr>) of
      Panics \<Rightarrow> False
    | Returns (consumableParams, err) \<Rightarrow>
        err = None \<and> map PayloadType (Codecs consumableParams) = [0, 100, 101]) \<and>
   (case GetConsumableRtpParameters ''video''
           (zeroParameters\<lparr>Codecs := [producerVP9, producerVP8]\<rparr>) routerVP8
           (zeroMapping\<lparr>mapCodecs := [\<lparr>mcPayloadType = 96, MappedPayloadType = 100\<rparr>,
                  \<lparr>mcPayloadType = 98, MappedPayloadType = 0\<rparr>]\<rparr>) of
      Panics \<Rightarrow> False
    | Returns (consumableParams, err) \<Rightarrow>
        err = None \<and> map PayloadType (Codecs consumableParams) = [0, 100, 101])"
  by code_simp


section \<open>Feasibility and consumer parameters\<close>

lemma checkCodecCapability_fields:
  "MimeType (snd (checkCodecCapability c)) = MimeType c"
  "fst (checkCodecCapability c) = None \<longleftrightarrow> MimeType c \<noteq> [] \<and> ClockRate c \<noteq> 0"
  by (simp_all add: checkCodecCapability_def)

lemma matchedCodecs_Kind:
  "matchedCodecs answer a (b\<lparr>Kind := k\<rparr>) mode = matchedCodecs answer a b mode"
  by (simp add: matchedCodecs_def Let_def cong del: if_weak_cong)

lemma strictMatch_checked:
  "strictMatch answer a (snd (checkCodecCapability b)) = strictMatch answer a b"
proof -
  have "snd (checkCodecCapability b) = b
      \<or> snd (checkCodecCapability b) = b\<lparr>Kind := ToLower (SplitFirst (MimeType b))\<rparr>"
    by (simp add: checkCodecCapability_def)
  then show ?thesis
    by (auto simp: strictMatch_def matchedCodecs_Kind)
qed

lemma checkedCapCodecs_map:
  "checkedCapCodecs caps acc =
     (if \<forall>c\<in>set caps. MimeType c \<noteq> [] \<and> ClockRate c \<noteq> 0
      then Some (acc @ map (\<lambda>c. snd (checkCodecCapability c)) caps) else None)"
proof (induction caps arbitrary: acc)
  case Nil
  show ?case by simp
next
  case (Cons c caps)
  obtain e c' where chk: "checkCodecCapability c = (e, c')" by (cases "checkCodecCapability c")
  with checkCodecCapability_fields(2) [of c]
  have "e = None \<longleftrightarrow> MimeType c \<noteq> [] \<and> ClockRate c \<noteq> 0" by simp
  with chk show ?case by (cases e) (auto simp: Cons.IH)
qed

lemma matchingCapCodecs_map_filter:
  "matchingCapCodecs answer caps cs acc =
     acc @ map (\<lambda>c. the (find (strictMatch answer c) caps))
             (filter (\<lambda>c. find (strictMatch answer c) caps \<noteq> None) cs)"
proof (induction cs arbitrary: acc)
  case Nil
  show ?case by simp
next
  case (Cons c cs)
  show ?case
    by (cases "find (strictMatch answer c) caps")
       (simp_all add: selectMatchedCodecs_strict Cons.IH)
qed

lemma find_checked:
  "find (strictMatch answer a) (map (\<lambda>c. snd (checkCodecCapability c)) caps)
     = map_option (\<lambda>c. snd (checkCodecCapability c)) (find (strictMatch answer a) caps)"
  by (induction caps) (simp_all add: strictMatch_checked)

text \<open>
  What \<^verbatim>\<open>CanConsume\<close> computes: every capability codec is valid, some consumable codec
  has a strict match, and the capability codec that the first such codec matches does not
  end in \<^verbatim>\<open>/rtx\<close> as it is spelled.
\<close>

lemma CanConsume_iff:
  "CanConsume answer consumableParams caps \<longleftrightarrow>
     (\<forall>c\<in>set (capCodecs caps). MimeType c \<noteq> [] \<and> ClockRate c \<noteq> 0) \<and>
     (case filter (\<lambda>c. \<exists>cap\<in>set (capCodecs caps). strictMatch answer c cap)
             (Codecs consumableParams) of
        [] \<Rightarrow> False
      | c # _ \<Rightarrow> \<exists>cap. find (strictMatch answer c) (capCodecs caps) = Some cap
                       \<and> \<not> HasSuffix (MimeType cap) ''/rtx'')"
proof (cases "\<forall>c\<in>set (capCodecs caps). MimeType c \<noteq> [] \<and> ClockRate c \<noteq> 0")
  case False
  then have none: "checkedCapCodecs (capCodecs caps) [] = None"
    unfolding checkedCapCodecs_map by (simp only: if_False)
  show ?thesis unfolding CanConsume_def none using False by auto
next
  case True
  let ?chk = "\<lambda>c. snd (checkCodecCapability c)"
  have same: "(\<lambda>c. find (strictMatch answer c) (map ?chk (capCodecs caps)) \<noteq> None)
      = (\<lambda>c. \<exists>cap\<in>set (capCodecs caps). strictMatch answer c cap)"
    by (auto simp: find_checked find_None_iff)
  have chk: "checkedCapCodecs (capCodecs caps) [] = Some (map ?chk (capCodecs caps))"
    using True by (simp add: checkedCapCodecs_map)
  have mc: "matchingCapCodecs answer (map ?chk (capCodecs caps)) (Codecs consumableParams) []
      = map (\<lambda>c. the (find (strictMatch answer c) (map ?chk (capCodecs caps))))
          (filter (\<lambda>c. \<exists>cap\<in>set (capCodecs caps). strictMatch answer c cap)
             (Codecs consumableParams))"
    unfolding matchingCapCodecs_map_filter same by simp
  show ?thesis
  proof (cases "filter (\<lambda>c. \<exists>cap\<in>set (capCodecs caps). strictMatch answer c cap)
             (Codecs consumableParams)")
    case Nil
    with True show ?thesis
      by (simp add: CanConsume_def chk mc)
  next
    case (Cons c rest)
    then have "c \<in> set (filter (\<lambda>c. \<exists>cap\<in>set (capCodecs caps). strictMatch answer c cap)
             (Codecs consumableParams))" by simp
    then have "find (strictMatch answer c) (capCodecs caps) \<noteq> None"
      by (auto simp: find_None_iff)
    then obtain cap where cap: "find (strictMatch answer c) (capCodecs caps) = Some cap" by auto
    with True Cons show ?thesis
      by (simp add: CanConsume_def chk mc find_checked checkCodecCapability_fields)
  qed
qed

text \<open>
  Claim C5 fails on the code. The only consumable codec is an RTX codec, its mime type
  ends in \<^verbatim>\<open>/rtx\<close>, and the device lists it as \<^verbatim>\<open>video/RTX\<close>: the matcher ignores the
  letter case, the test for an RTX codec reads the capability's spelling and does not,
  and \<^verbatim>\<open>CanConsume\<close> answers true.
\<close>

theorem CanConsume_uppercase_rtx:
  "HasSuffix (MimeType rtxLower) ''/rtx'' \<and>
   matchingCapCodecs noAnswer [rtxUpper] [rtxLower] [] = [rtxUpper] \<and>
   CanConsume noAnswer (zeroParameters\<lparr>Codecs := [rtxLower]\<rparr>)
     (zeroCapabilities\<lparr>capCodecs := [rtxUpper]\<rparr>) = True"
  by code_simp

lemma consumerCodecs_map_filter:
  "fst (consumerCodecs answer caps cs acc rtx) =
     acc @ map (\<lambda>c. c\<lparr>RtcpFeedback := RtcpFeedback (the (find (strictMatch answer c) caps))\<rparr>)
             (filter (\<lambda>c. find (strictMatch answer c) caps \<noteq> None) cs)"
proof (induction cs arbitrary: acc rtx)
  case Nil
  show ?case by simp
next
  case (Cons c cs)
  show ?case
    by (cases "find (strictMatch answer c) caps")
       (simp_all add: selectMatchedCodecs_strict Cons.IH Let_def)
qed

lemma consumerCodecs_filter:
  "consumerCodecs answer caps (filter (\<lambda>c. \<exists>cap\<in>set caps. strictMatch answer c cap) cs) acc rtx
     = consumerCodecs answer caps cs acc rtx"
proof (induction cs arbitrary: acc rtx)
  case Nil
  show ?case by simp
next
  case (Cons c cs)
  show ?case
  proof (cases "find (strictMatch answer c) caps")
    case None
    then have "\<not> (\<exists>cap\<in>set caps. strictMatch answer c cap)" by (simp add: find_None_iff)
    with None show ?thesis
      by (simp add: selectMatchedCodecs_strict Cons.IH)
  next
    case (Some cap)
    then have "\<exists>cap\<in>set caps. strictMatch answer c cap" by (auto simp: find_Some_iff)
    with Some show ?thesis
      by (simp add: selectMatchedCodecs_strict Cons.IH Let_def)
  qed
qed

lemma consumerCodecs_relabelled:
  "list_all2
     (\<lambda>out c. \<exists>cap. find (strictMatch answer c) caps = Some cap
                \<and> out = c\<lparr>RtcpFeedback := RtcpFeedback cap\<rparr>)
     (fst (consumerCodecs answer caps cs [] rtx))
     (filter (\<lambda>c. \<exists>cap\<in>set caps. strictMatch answer c cap) cs)"
proof -
  have same: "(\<lambda>c. find (strictMatch answer c) caps \<noteq> None)
      = (\<lambda>c. \<exists>cap\<in>set caps. strictMatch answer c cap)"
    by (auto simp: find_None_iff)
  have some: "\<exists>cap. find (strictMatch answer c) caps = Some cap \<and>
      c\<lparr>RtcpFeedback := RtcpFeedback (the (find (strictMatch answer c) caps))\<rparr>
        = c\<lparr>RtcpFeedback := RtcpFeedback cap\<rparr>"
    if "\<exists>cap\<in>set caps. strictMatch answer c cap" for c
  proof -
    from that have "find (strictMatch answer c) caps \<noteq> None" by (auto simp: find_None_iff)
    then obtain cap where "find (strictMatch answer c) caps = Some cap" by auto
    then show ?thesis by simp
  qed
  show ?thesis
    unfolding consumerCodecs_map_filter same
    by (simp add: list_all2_map1 list_all2_same some)
qed

text \<open>
  Claim C8. The codecs \<^verbatim>\<open>GetConsumerRtpParameters\<close> returns are, in order, the consumable
  codecs that have a strict match among the capability codecs, each with its RTCP
  feedback replaced by that of the first capability codec it matches, and nothing else
  changed: a sublist of the input. A codec without a match is dropped without an error
  of its own: the call returns what it returns for the input without such codecs.
\<close>

theorem consumer_codecs_conservation:
  "(\<exists>kept. subseq kept (Codecs consumable) \<and>
      kept = (if validateCapCodecs (capCodecs caps) = None
              then filter (\<lambda>c. \<exists>cap\<in>set (capCodecs caps). strictMatch answer c cap)
                     (Codecs consumable)
              else []) \<and>
      list_all2
        (\<lambda>out c. \<exists>cap. find (strictMatch answer c) (capCodecs caps) = Some cap
                   \<and> out = c\<lparr>RtcpFeedback := RtcpFeedback cap\<rparr>)
        (Codecs (fst (GetConsumerRtpParameters answer rnd consumable caps))) kept) \<and>
   GetConsumerRtpParameters answer rnd
       (consumable\<lparr>Codecs := filter (\<lambda>c. \<exists>cap\<in>set (capCodecs caps). strictMatch answer c cap)
                                 (Codecs consumable)\<rparr>) caps
     = GetConsumerRtpParameters answer rnd consumable caps"
proof (rule conjI)
  let ?kept = "filter (\<lambda>c. \<exists>cap\<in>set (capCodecs caps). strictMatch answer c cap) (Codecs consumable)"
  let ?R = "\<lambda>out c. \<exists>cap. find (strictMatch answer c) (capCodecs caps) = Some cap
                   \<and> out = c\<lparr>RtcpFeedback := RtcpFeedback cap\<rparr>"
  let ?out = "Codecs (fst (GetConsumerRtpParameters answer rnd consumable caps))"
  show "\<exists>kept. subseq kept (Codecs consumable) \<and>
      kept = (if validateCapCodecs (capCodecs caps) = None then ?kept else []) \<and>
      list_all2 ?R ?out kept"
  proof (cases "validateCapCodecs (capCodecs caps)")
    case (Some e)
    then have "?out = []" by (simp add: GetConsumerRtpParameters_def zeroParameters_def)
    with Some show ?thesis by simp
  next
    case None
    obtain codecs rtx where cc:
      "consumerCodecs answer (capCodecs caps) (Codecs consumable) [] False = (codecs, rtx)"
      by (cases "consumerCodecs answer (capCodecs caps) (Codecs consumable) [] False")
    have out: "?out = codecs"
      using None cc by (simp add: GetConsumerRtpParameters_def zeroParameters_def)
    from consumerCodecs_relabelled [of answer "capCodecs caps" "Codecs consumable" False] cc
    have "list_all2 ?R codecs ?kept" by simp
    with None out show ?thesis by simp
  qed
next
  show "GetConsumerRtpParameters answer rnd
       (consumable\<lparr>Codecs := filter (\<lambda>c. \<exists>cap\<in>set (capCodecs caps). strictMatch answer c cap)
                                 (Codecs consumable)\<rparr>) caps
     = GetConsumerRtpParameters answer rnd consumable caps"
    by (simp add: GetConsumerRtpParameters_def consumerCodecs_filter
        cong del: option.case_cong_weak if_weak_cong)
qed

text \<open>A device that knows VP8 but no RTX: the RTX codec is dropped and the call succeeds.\<close>

theorem consumer_codecs_conservation_witness:
  "GetConsumerRtpParameters noAnswer noRandom
       (consumableExample\<lparr>Codecs :=
          filter (\<lambda>c. \<exists>cap\<in>set (capCodecs (zeroCapabilities\<lparr>capCodecs := [consumerVP8]\<rparr>)).
                    strictMatch noAnswer c cap) (Codecs consumableExample)\<rparr>)
       (zeroCapabilities\<lparr>capCodecs := [consumerVP8]\<rparr>)
     = GetConsumerRtpParameters noAnswer noRandom consumableExample
         (zeroCapabilities\<lparr>capCodecs := [consumerVP8]\<rparr>) \<and>
   snd (GetConsumerRtpParameters noAnswer noRandom consumableExample
         (zeroCapabilities\<lparr>capCodecs := [consumerVP8]\<rparr>)) = None \<and>
   Codecs (fst (GetConsumerRtpParameters noAnswer noRandom consumableExample
         (zeroCapabilities\<lparr>capCodecs := [consumerVP8]\<rparr>)))
     = [zeroCodec\<lparr>MimeType := ''video/VP8'', ClockRate := 90000, PayloadType := 100,
         RtcpFeedback := [\<lparr>Type = ''nack'', Parameter = ''pli''\<rparr>]\<rparr>]"
proof -
  have e: "snd (GetConsumerRtpParameters noAnswer noRandom consumableExample
         (zeroCapabilities\<lparr>capCodecs := [consumerVP8]\<rparr>)) = None \<and>
   Codecs (fst (GetConsumerRtpParameters noAnswer noRandom consumableExample
         (zeroCapabilities\<lparr>capCodecs := [consumerVP8]\<rparr>)))
     = [zeroCodec\<lparr>MimeType := ''video/VP8'', ClockRate := 90000, PayloadType := 100,
         RtcpFeedback := [\<lparr>Type = ''nack'', Parameter = ''pli''\<rparr>]\<rparr>]"
    by code_simp
  from consumer_codecs_conservation [of consumableExample "zeroCapabilities\<lparr>capCodecs := [consumerVP8]\<rparr>"
      noAnswer noRandom] e
  show ?thesis by blast
qed


section \<open>Pipe consumer parameters\<close>

lemma pipeFeedback_filter: "pipeFeedback fbs acc = acc @ filter pipeKeeps fbs"
  by (induction fbs arbitrary: acc) (auto simp: pipeKeeps_def)

lemma pipeCodecs_map_filter:
  "pipeCodecs cs acc =
     acc @ map (\<lambda>c. c\<lparr>RtcpFeedback := filter pipeKeeps (RtcpFeedback c)\<rparr>)
             (filter (\<lambda>c. \<not> isRtxMime c) cs)"
  by (induction cs arbitrary: acc) (simp_all add: pipeFeedback_filter)

lemma pipeHeaderExtensions_filter:
  "pipeHeaderExtensions exts acc =
     acc @ filter (\<lambda>ext. Uri ext \<noteq> ''http://www.webrtc.org/experiments/rtp-hdrext/abs-send-time'') exts"
  by (induction exts arbitrary: acc) simp_all

lemma pipeEncodings_map:
  "pipeEncodings es acc =
     acc @ map (\<lambda>e. RtpEncoding (Ssrc e) (Rid e) (CodecPayloadType e) None) es"
  by (induction es arbitrary: acc) simp_all

text \<open>
  Claim C9. \<^verbatim>\<open>GetPipeConsumerRtpParameters\<close> drops every RTX codec and keeps, of the
  feedback of each other codec, exactly the entries (nack, pli) and (ccm, fir); it drops
  the abs-send-time header extension and keeps the others; it returns one encoding per
  consumable encoding, with the same ssrc and rid and only the rtx field cleared. On the
  feedback (nack), (nack, pli), (ccm, fir), (goog-remb) exactly (nack, pli) and
  (ccm, fir) remain.
\<close>

theorem pipe_consumer_parameters:
  "GetPipeConsumerRtpParameters p =
     \<lparr>Codecs =
        map (\<lambda>c. c\<lparr>RtcpFeedback := filter pipeKeeps (RtcpFeedback c)\<rparr>)
          (filter (\<lambda>c. \<not> HasSuffix (ToLower (MimeType c)) ''/rtx'') (Codecs p)),
      HeaderExtensions =
        filter (\<lambda>ext. Uri ext \<noteq> ''http://www.webrtc.org/experiments/rtp-hdrext/abs-send-time'')
          (HeaderExtensions p),
      Encodings = map (\<lambda>e. RtpEncoding (Ssrc e) (Rid e) (CodecPayloadType e) None) (Encodings p),
      Rtcp = Rtcp p\<rparr> \<and>
   Codecs (GetPipeConsumerRtpParameters
       (zeroParameters\<lparr>Codecs := [vp8Codec\<lparr>RtcpFeedback := feedbackExample\<rparr>]\<rparr>))
     = [vp8Codec\<lparr>RtcpFeedback :=
          [\<lparr>Type = ''nack'', Parameter = ''pli''\<rparr>, \<lparr>Type = ''ccm'', Parameter = ''fir''\<rparr>]\<rparr>]"
proof -
  have general: "GetPipeConsumerRtpParameters p =
     \<lparr>Codecs =
        map (\<lambda>c. c\<lparr>RtcpFeedback := filter pipeKeeps (RtcpFeedback c)\<rparr>)
          (filter (\<lambda>c. \<not> HasSuffix (ToLower (MimeType c)) ''/rtx'') (Codecs p)),
      HeaderExtensions =
        filter (\<lambda>ext. Uri ext \<noteq> ''http://www.webrtc.org/experiments/rtp-hdrext/abs-send-time'')
          (HeaderExtensions p),
      Encodings = map (\<lambda>e. RtpEncoding (Ssrc e) (Rid e) (CodecPayloadType e) None) (Encodings p),
      Rtcp = Rtcp p\<rparr>"
    by (simp add: GetPipeConsumerRtpParameters_def pipeCodecs_map_filter
        pipeHeaderExtensions_filter pipeEncodings_map isRtxMime_def)
  have scenario: "Codecs (GetPipeConsumerRtpParameters
       (zeroParameters\<lparr>Codecs := [vp8Codec\<lparr>RtcpFeedback := feedbackExample\<rparr>]\<rparr>))
     = [vp8Codec\<lparr>RtcpFeedback :=
          [\<lparr>Type = ''nack'', Parameter = ''pli''\<rparr>, \<lparr>Type = ''ccm'', Parameter = ''fir''\<rparr>]\<rparr>]"
    by code_simp
  from general scenario show ?thesis by (rule conjI)
qed


end
